theory Spec2Isabelle
  imports Main "HOL-Library.Sublist" "HOL-Library.Multiset"
begin

section \<open>JavaScript values\<close>

text \<open>
  Task objects come out of \<^verbatim>\<open>JSON.parse\<close>, so a field may hold any JSON value or be
  absent. \<open>json\<close> is what a field of a task object can hold; \<open>jsval\<close> is what a
  function can be handed as a task: a plain value or an object with fields. Numbers are
  modelled as integers: the code only tests their truthiness and their type. Field values
  that are themselves objects are outside the model.
\<close>

datatype json = Undefined | Null | Bool bool | Num int | Str string | Arr "json list"

datatype jsval = Val json | Obj "(string \<times> json) list"

datatype exn = TypeError | Error string

text \<open>Sequencing of steps that may throw: the first exception ends the computation.\<close>

definition and_then :: "exn + 'a \<Rightarrow> ('a \<Rightarrow> exn + 'b) \<Rightarrow> exn + 'b" where
  "and_then m f = (case m of Inl e \<Rightarrow> Inl e | Inr x \<Rightarrow> f x)"

text \<open>JavaScript truthiness: \<^verbatim>\<open>!x\<close> is \<open>\<not> truthy x\<close>.\<close>

fun truthy :: "json \<Rightarrow> bool" where
  "truthy Undefined = False"
| "truthy Null = False"
| "truthy (Bool b) = b"
| "truthy (Num n) = (n \<noteq> 0)"
| "truthy (Str s) = (s \<noteq> [])"
| "truthy (Arr xs) = True"

text \<open>\<^verbatim>\<open>typeof x === 'string'\<close>\<close>

fun is_string :: "json \<Rightarrow> bool" where
  "is_string (Str s) = True"
| "is_string v = False"

text \<open>
  \<^verbatim>\<open>task.key\<close> for the keys the code reads (title, assignee, due_date, confidence,
  context, priority, estimated_time): reading a property of \<^verbatim>\<open>null\<close> or
  \<^verbatim>\<open>undefined\<close> throws a TypeError, an object yields the field or
  \<^verbatim>\<open>undefined\<close>, and no other value has a property of one of these names.
\<close>

fun js_get :: "jsval \<Rightarrow> string \<Rightarrow> exn + json" where
  "js_get (Val Undefined) k = Inl TypeError"
| "js_get (Val Null) k = Inl TypeError"
| "js_get (Val v) k = Inr Undefined"
| "js_get (Obj fs) k = (case map_of fs k of None \<Rightarrow> Inr Undefined | Some v \<Rightarrow> Inr v)"

text \<open>\<^verbatim>\<open>a || b\<close>\<close>

definition js_or :: "json \<Rightarrow> json \<Rightarrow> json" where
  "js_or a b = (if truthy a then a else b)"

text \<open>\<^verbatim>\<open>['high', 'medium', 'low'].includes(x)\<close>: only the three strings are members.\<close>

definition is_level :: "json \<Rightarrow> bool" where
  "is_level v = (v \<in> set [Str ''high'', Str ''medium'', Str ''low''])"

text \<open>
  \<^verbatim>\<open>task.key\<close> of a task that is not \<^verbatim>\<open>null\<close> or \<^verbatim>\<open>undefined\<close>, for stating what
  the validators do with a field.
\<close>

definition field_of :: "jsval \<Rightarrow> string \<Rightarrow> json" where
  "field_of t k = (case js_get t k of Inr v \<Rightarrow> v | Inl e \<Rightarrow> Undefined)"

section \<open>Strings\<close>

text \<open>
  Strings are byte lists; the whitespace of \<^verbatim>\<open>trim\<close> and of \<^verbatim>\<open>\s\<close> is modelled on
  ASCII: space, tab, line feed, vertical tab, form feed and carriage return.
\<close>

definition is_space :: "char \<Rightarrow> bool" where
  "is_space c = (c \<in> set [CHR 0x20, CHR 0x09, CHR 0x0A, CHR 0x0B, CHR 0x0C, CHR 0x0D])"

definition trim :: "string \<Rightarrow> string" where
  "trim s = rev (dropWhile is_space (rev (dropWhile is_space s)))"

text \<open>\<^verbatim>\<open>xs.join(sep)\<close>\<close>

fun join :: "string \<Rightarrow> string list \<Rightarrow> string" where
  "join sep [] = []"
| "join sep [x] = x"
| "join sep (x # y # ys) = x @ sep @ join sep (y # ys)"

text \<open>\<^verbatim>\<open>s.split(c)\<close> for a one-character separator: always at least one piece.\<close>

fun split_on :: "char \<Rightarrow> string \<Rightarrow> string list" where
  "split_on c [] = [[]]"
| "split_on c (x # xs) =
     (if x = c then [] # split_on c xs
      else (case split_on c xs of [] \<Rightarrow> [[x]] | l # ls \<Rightarrow> (x # l) # ls))"

text \<open>\<^verbatim>\<open>s.includes(k)\<close>: \<open>k\<close> occurs in \<open>s\<close> as a contiguous piece.\<close>

fun js_includes :: "string \<Rightarrow> string \<Rightarrow> bool" where
  "js_includes [] k = (k = [])"
| "js_includes (c # cs) k = (prefix k (c # cs) \<or> js_includes cs k)"

text \<open>The decimal digits of a number, as template literals print it.\<close>

fun string_of_nat :: "nat \<Rightarrow> string" where
  "string_of_nat n =
     (if n < 10 then [char_of (48 + n)]
      else string_of_nat (n div 10) @ [char_of (48 + n mod 10)])"

declare string_of_nat.simps [simp del]

definition string_of_int :: "int \<Rightarrow> string" where
  "string_of_int n = (if n < 0 then CHR ''-'' # string_of_nat (nat (- n)) else string_of_nat (nat n))"

text \<open>\<^verbatim>\<open>s.toLowerCase()\<close> on ASCII letters; other bytes are left as they are.\<close>

definition lower_char :: "char \<Rightarrow> char" where
  "lower_char c =
     (if 65 \<le> (of_char c :: nat) \<and> (of_char c :: nat) \<le> 90 then char_of ((of_char c :: nat) + 32) else c)"

definition toLowerCase :: "string \<Rightarrow> string" where
  "toLowerCase s = map lower_char s"

text \<open>The string a template literal or \<^verbatim>\<open>String(x)\<close> makes of a value.\<close>

fun to_string :: "json \<Rightarrow> string" where
  "to_string Undefined = ''undefined''"
| "to_string Null = ''null''"
| "to_string (Bool b) = (if b then ''true'' else ''false'')"
| "to_string (Num n) = string_of_int n"
| "to_string (Str s) = s"
| "to_string (Arr xs) =
     join '','' (map (\<lambda>x. if x = Undefined \<or> x = Null then [] else to_string x) xs)"

section \<open>Task validation (validator)\<close>

record validation =
  valid :: bool
  errors :: "string list"

text \<open>
  \<^verbatim>\<open>x.length\<close> of a truthy field value: strings and arrays have one, numbers and
  booleans yield \<^verbatim>\<open>undefined\<close> (\<open>None\<close>), which no comparison with a number satisfies.
\<close>

fun js_length :: "json \<Rightarrow> nat option" where
  "js_length (Str s) = Some (length s)"
| "js_length (Arr xs) = Some (length xs)"
| "js_length v = None"

definition title_errors :: "json \<Rightarrow> string list" where
  "title_errors title =
     (if \<not> truthy title \<or> \<not> is_string title then [''Task title is required'']
      else if length (trim (to_string title)) < 3 then [''Task title must be at least 3 characters'']
      else [])"

definition validateTask :: "jsval \<Rightarrow> exn + validation" where
  "validateTask t =
     and_then (js_get t ''title'') (\<lambda>t_title.
     and_then (js_get t ''assignee'') (\<lambda>t_assignee.
     and_then (js_get t ''confidence'') (\<lambda>t_confidence.
     and_then (js_get t ''priority'') (\<lambda>t_priority.
     and_then (js_get t ''due_date'') (\<lambda>t_due_date.
        let errs = title_errors t_title
              @ (if truthy t_assignee \<and> \<not> is_string t_assignee then [''Assignee must be a string''] else [])
              @ (if truthy t_confidence \<and> \<not> is_level t_confidence
                 then [''Confidence must be high, medium, or low''] else [])
              @ (if truthy t_priority \<and> \<not> is_level t_priority
                 then [''Priority must be high, medium, or low''] else [])
              @ (if truthy t_due_date \<and> (case js_length t_due_date of Some n \<Rightarrow> n > 100 | None \<Rightarrow> False)
                 then [''Due date string is too long''] else [])
        in Inr \<lparr>valid = (length errs = 0), errors = errs\<rparr>)))))"

text \<open>
  What \<^verbatim>\<open>validateTaskBatch\<close> can be handed: an array of values, or something that
  is not an array.
\<close>

datatype batch_arg = NotArray | Array "jsval list"

text \<open>
  The \<^verbatim>\<open>tasks.forEach((task, index) => ...)\<close> loop, from position \<open>index\<close> on; an exception
  thrown by \<^verbatim>\<open>validateTask\<close> ends it.
\<close>

fun forEach_validate :: "nat \<Rightarrow> jsval list \<Rightarrow> exn + string list" where
  "forEach_validate index [] = Inr []"
| "forEach_validate index (t # ts) =
     and_then (validateTask t) (\<lambda>validation.
     and_then (forEach_validate (index + 1) ts) (\<lambda>rest.
        Inr ((if \<not> valid validation
              then [''Task '' @ string_of_nat (index + 1) @ '': '' @ join '', '' (errors validation)]
              else []) @ rest)))"

definition validateTaskBatch :: "batch_arg \<Rightarrow> exn + validation" where
  "validateTaskBatch arg =
     (case arg of
        NotArray \<Rightarrow> Inr \<lparr>valid = False, errors = [''Tasks must be an array'']\<rparr>
      | Array tasks \<Rightarrow>
          if length tasks = 0 then Inr \<lparr>valid = False, errors = [''At least one task is required'']\<rparr>
          else if length tasks > 10
          then Inr \<lparr>valid = False, errors = [''Maximum 10 tasks allowed per batch'']\<rparr>
          else and_then (forEach_validate 0 tasks) (\<lambda>allErrors.
                 Inr \<lparr>valid = (length allErrors = 0), errors = allErrors\<rparr>))"

section \<open>Extraction client: field validation (ClaudeService)\<close>

record clean_task =
  title :: string
  assignee :: json
  due_date :: json
  confidence :: json
  "context" :: json
  priority :: json
  estimated_time :: json

text \<open>\<open>None\<close> is the \<^verbatim>\<open>null\<close> that drops the task.\<close>

definition ClaudeService_validateTask :: "jsval \<Rightarrow> exn + clean_task option" where
  "ClaudeService_validateTask t =
     and_then (js_get t ''title'') (\<lambda>t_title.
     if \<not> truthy t_title \<or> \<not> is_string t_title then Inr None
     else
     and_then (js_get t ''assignee'') (\<lambda>t_assignee.
     and_then (js_get t ''due_date'') (\<lambda>t_due_date.
     and_then (js_get t ''confidence'') (\<lambda>t_confidence.
     and_then (js_get t ''context'') (\<lambda>t_context.
     and_then (js_get t ''priority'') (\<lambda>t_priority.
     and_then (js_get t ''estimated_time'') (\<lambda>t_estimated_time.
        let cleanTask = \<lparr>title = trim (to_string t_title),
                         assignee = js_or t_assignee (Str ''infer_from_context''),
                         due_date = js_or t_due_date Null,
                         confidence = js_or t_confidence (Str ''medium''),
                         context = js_or t_context (Str []),
                         priority = js_or t_priority (Str ''medium''),
                         estimated_time = js_or t_estimated_time Null\<rparr>;
            cleanTask = (if \<not> is_level (confidence cleanTask)
                         then cleanTask\<lparr>confidence := Str ''medium''\<rparr> else cleanTask);
            cleanTask = (if \<not> is_level (priority cleanTask)
                         then cleanTask\<lparr>priority := Str ''medium''\<rparr> else cleanTask)
        in Inr (Some cleanTask))))))))"

section \<open>Text utilities (parser)\<close>

text \<open>\<^verbatim>\<open>line.replace(/^>\s*/, '')\<close>\<close>

fun strip_quote_mark :: "string \<Rightarrow> string" where
  "strip_quote_mark [] = []"
| "strip_quote_mark (c # cs) = (if c = CHR ''>'' then dropWhile is_space cs else c # cs)"

definition extractQuotedText :: "json \<Rightarrow> string" where
  "extractQuotedText text =
     (if \<not> truthy text \<or> \<not> is_string text then []
      else
        let lines = split_on (CHR 0x0A) (to_string text);
            quotedLines =
              filter (\<lambda>line. length line > 0)
                (map (\<lambda>line. trim (strip_quote_mark line))
                  (filter (\<lambda>line. prefix ''>'' (trim line)) lines))
        in join '' '' quotedLines)"


section \<open>Sync client (MotionService)\<close>

text \<open>
  \<^verbatim>\<open>createTask\<close> builds the request and posts it. The network call is outside the
  program; its answer to the request for the task at position \<open>i\<close> of the list being
  created is a parameter of the model. The call either yields an id, or fails and is turned
  into an error record by \<^verbatim>\<open>handleError\<close>, or an exception escapes
  \<^verbatim>\<open>createTask\<close>. The functions do not look into the task, so its type is left open.
\<close>

datatype api_answer = Created string | Refused string | Raised string

record motion_options =
  workspaceId :: "string option"
  projectId :: "string option"

type_synonym 'task motion_api = "nat \<Rightarrow> 'task \<Rightarrow> motion_options \<Rightarrow> api_answer"

record 'task create_result =
  success :: bool
  motionTaskId :: "string option"
  error :: "string option"
  task :: "'task option"

definition createTask :: "'task motion_api \<Rightarrow> nat \<Rightarrow> 'task \<Rightarrow> motion_options \<Rightarrow> exn + 'task create_result" where
  "createTask api i taskData options =
     (case api i taskData options of
        Created tid \<Rightarrow> Inr \<lparr>success = True, motionTaskId = Some tid, error = None, task = None\<rparr>
      | Refused msg \<Rightarrow> Inr \<lparr>success = False, motionTaskId = None, error = Some msg, task = None\<rparr>
      | Raised msg \<Rightarrow> Inl (Error msg))"

text \<open>\<^verbatim>\<open>error.message\<close>\<close>

fun message_of :: "exn \<Rightarrow> string" where
  "message_of TypeError = ''TypeError''"
| "message_of (Error msg) = msg"

text \<open>The body of the \<^verbatim>\<open>batch.map\<close> callback: a thrown error becomes a failed result.\<close>

definition attempt :: "'task motion_api \<Rightarrow> motion_options \<Rightarrow> nat \<Rightarrow> 'task \<Rightarrow> 'task create_result" where
  "attempt api options i t =
     (case createTask api i t options of
        Inr r \<Rightarrow> r
      | Inl e \<Rightarrow> \<lparr>success = False, motionTaskId = None, error = Some (message_of e), task = Some t\<rparr>)"

definition batchSize :: nat where
  "batchSize = 10"

text \<open>
  The \<^verbatim>\<open>for (let i = 0; i < tasks.length; i += batchSize)\<close> loop; \<open>acc\<close> is
  \<^verbatim>\<open>results\<close>. \<^verbatim>\<open>tasks.slice(i, i + batchSize)\<close> is \<open>take batchSize (drop i tasks)\<close>,
  and \<^verbatim>\<open>Promise.all\<close> keeps the order of the batch.
\<close>

function batches :: "'task motion_api \<Rightarrow> motion_options \<Rightarrow> 'task list \<Rightarrow> nat \<Rightarrow> 'task create_result list \<Rightarrow> 'task create_result list" where
  "batches api options tasks i acc =
     (if i < length tasks then
        let batch = take batchSize (drop i tasks);
            batchResults = map (\<lambda>(index, t). attempt api options (i + index) t) (enumerate 0 batch)
        in batches api options tasks (i + batchSize) (acc @ batchResults)
      else acc)"
  by pat_completeness auto
termination
  by (relation "measure (\<lambda>(api, options, tasks, i, acc). length tasks - i)") (auto simp: batchSize_def)

declare batches.simps [simp del]

record 'task batch_result =
  success :: bool
  total :: nat
  successful :: nat
  failed :: nat
  results :: "'task create_result list"
  failed_tasks :: "'task create_result list"

definition createMultipleTasks :: "'task motion_api \<Rightarrow> 'task list \<Rightarrow> motion_options \<Rightarrow> 'task batch_result" where
  "createMultipleTasks api tasks options =
     (let rs = batches api options tasks 0 [];
          ok = filter (\<lambda>r. create_result.success r) rs;
          bad = filter (\<lambda>r. \<not> create_result.success r) rs
      in \<lparr>batch_result.success = (length bad = 0), total = length rs, successful = length ok,
          failed = length bad, results = rs, failed_tasks = bad\<rparr>)"

section \<open>Destination-matching heuristic (WorkspaceMatcherService)\<close>

text \<open>A workspace or a project of the destination service: the code reads its id and name.\<close>

record motion_item =
  id' :: string
  name :: string

text \<open>\<^verbatim>\<open>\w\<close>: ASCII letters, digits and the underscore.\<close>

definition is_word_char :: "char \<Rightarrow> bool" where
  "is_word_char c =
     (let n = (of_char c :: nat)
      in (97 \<le> n \<and> n \<le> 122) \<or> (65 \<le> n \<and> n \<le> 90) \<or> (48 \<le> n \<and> n \<le> 57) \<or> n = 95)"

text \<open>
  \<^verbatim>\<open>s.split(/\s+/)\<close>: the pieces between runs of whitespace. \<open>in_run\<close> says that the
  previous character was whitespace, \<open>cur\<close> is the piece being read, reversed.
\<close>

fun split_spaces :: "bool \<Rightarrow> string \<Rightarrow> string \<Rightarrow> string list" where
  "split_spaces in_run cur [] = [rev cur]"
| "split_spaces in_run cur (c # cs) =
     (if is_space c then
        (if in_run then split_spaces True cur cs else rev cur # split_spaces True [] cs)
      else split_spaces False (c # cur) cs)"

definition stopWords :: "string list" where
  "stopWords = [''the'', ''and'', ''for'', ''are'', ''but'', ''not'', ''you'', ''all'', ''can'', ''had'',
     ''her'', ''was'', ''one'', ''our'', ''out'', ''day'', ''get'', ''has'', ''him'', ''his'', ''how'',
     ''its'', ''may'', ''new'', ''now'', ''old'', ''see'', ''two'', ''who'', ''boy'', ''did'', ''she'',
     ''use'', ''way'', ''will'', ''need'', ''have'', ''this'', ''that'', ''with'', ''they'']"

definition isStopWord :: "string \<Rightarrow> bool" where
  "isStopWord word = (word \<in> set stopWords)"

text \<open>\<^verbatim>\<open>[...new Set(words)]\<close> keeps the first occurrence of each word.\<close>

definition extractKeywords :: "string \<Rightarrow> string list" where
  "extractKeywords text =
     (let cleaned = map (\<lambda>c. if is_word_char c \<or> is_space c then c else CHR '' '') (toLowerCase text);
          words = filter (\<lambda>word. \<not> isStopWord word)
                    (filter (\<lambda>word. length word > 2) (split_spaces False [] cleaned))
      in rev (remdups (rev words)))"

definition isPersonalTask :: "string \<Rightarrow> bool" where
  "isPersonalTask text =
     list_ex (\<lambda>keyword. js_includes text keyword)
       [''personal'', ''home'', ''health'', ''doctor'', ''appointment'', ''family'', ''vacation'',
        ''shopping'', ''errands'']"

definition isWorkTask :: "string \<Rightarrow> bool" where
  "isWorkTask text =
     list_ex (\<lambda>keyword. js_includes text keyword)
       [''client'', ''project'', ''meeting'', ''deadline'', ''business'', ''company'', ''team'',
        ''development'', ''marketing'']"

record score =
  total :: int
  reasoning :: string

text \<open>
  Each rule that applies adds its points and its reason; the keyword loop contributes one
  entry per keyword the workspace name contains.
\<close>

definition calculateWorkspaceScore :: "string \<Rightarrow> motion_item \<Rightarrow> score" where
  "calculateWorkspaceScore taskText workspace =
     (let workspaceName = toLowerCase (name workspace);
          hits = filter (\<lambda>keyword. js_includes workspaceName keyword) (extractKeywords taskText);
          score0 = 5 * int (length hits);
          reasons0 = map (\<lambda>keyword. ''keyword match: '' @ [CHR 0x22] @ keyword @ [CHR 0x22]) hits;
          nasty = js_includes taskText ''nastygram'' \<and> js_includes workspaceName ''nastygram'';
          score1 = (if nasty then score0 + 10 else score0);
          reasons1 = (if nasty then reasons0 @ [''project context match: nastygram''] else reasons0);
          lab = js_includes taskText ''labcorp'' \<and> js_includes workspaceName ''health'';
          score2 = (if lab then score1 + 8 else score1);
          reasons2 = (if lab then reasons1 @ [''health-related task''] else reasons1);
          personal = isPersonalTask taskText \<and> js_includes workspaceName ''personal'';
          score3 = (if personal then score2 + 3 else score2);
          reasons3 = (if personal then reasons2 @ [''personal task classification''] else reasons2);
          work = isWorkTask taskText \<and>
                 (js_includes workspaceName ''dkc'' \<or> js_includes workspaceName ''dkdev'');
          score4 = (if work then score3 + 3 else score3);
          reasons4 = (if work then reasons3 @ [''work task classification''] else reasons3);
          dflt = js_includes workspaceName ''personal'' \<and> score4 = 0;
          score5 = (if dflt then score4 + 1 else score4);
          reasons5 = (if dflt then reasons4 @ [''default personal workspace''] else reasons4)
      in \<lparr>total = score5,
          reasoning = (if join '', '' reasons5 = [] then ''no specific matches'' else join '', '' reasons5)\<rparr>)"

text \<open>
  \<^verbatim>\<open>xs.sort((a, b) => b.score - a.score)\<close>: JavaScript's sort is stable, so equal
  scores keep their encounter order; descending order is ascending order of the negated score.
\<close>

definition sort_desc :: "('a \<Rightarrow> int) \<Rightarrow> 'a list \<Rightarrow> 'a list" where
  "sort_desc f xs = sort_key (\<lambda>x. - f x) xs"

definition findBestProject :: "string \<Rightarrow> motion_item list \<Rightarrow> motion_item option" where
  "findBestProject taskText projects =
     (if length projects = 0 then None
      else
        let projectMatches =
              sort_desc snd
                (map (\<lambda>project.
                        (project,
                         5 * int (length (filter (\<lambda>keyword. js_includes (toLowerCase (name project)) keyword)
                                            (extractKeywords taskText)))))
                   projects)
        in (case projectMatches of
              [] \<Rightarrow> None
            | m # ms \<Rightarrow> if snd m > 0 then Some (fst m) else None))"

text \<open>
  The answer of \<^verbatim>\<open>motionService.getProjects\<close>, which is outside the model:
  \<open>Listed d\<close> is \<^verbatim>\<open>{success: true, projects: d}\<close>, where \<open>d\<close> is \<open>None\<close> when the
  response carries no array; \<open>Unavailable\<close> is the error record with
  \<^verbatim>\<open>success: false\<close>; \<open>Failing\<close> is an exception, which the \<^verbatim>\<open>try\<close> swallows.
\<close>

datatype projects_answer = Listed "motion_item list option" | Unavailable string | Failing string

type_synonym projects_api = "string \<Rightarrow> projects_answer"

record match =
  workspace :: motion_item
  project :: "motion_item option"
  confidence :: string
  reasoning :: string

text \<open>
  \<open>taskText_of\<close> is the first line of \<^verbatim>\<open>findBestMatch\<close>, the lower-cased title and context.
  With no workspace at all \<^verbatim>\<open>bestMatch\<close> is \<^verbatim>\<open>undefined\<close>: the read inside the
  \<^verbatim>\<open>try\<close> is swallowed, the one in the \<^verbatim>\<open>return\<close> throws.
\<close>

definition taskText_of :: "clean_task \<Rightarrow> string" where
  "taskText_of t = toLowerCase (title t @ '' '' @ to_string (js_or (context t) (Str [])))"

definition findBestMatch :: "projects_api \<Rightarrow> clean_task \<Rightarrow> motion_item list \<Rightarrow> exn + match" where
  "findBestMatch getProjects t workspaces =
     (let taskText = taskText_of t;
          workspaceMatches =
            sort_desc (\<lambda>m. score.total (snd m))
              (map (\<lambda>workspace. (workspace, calculateWorkspaceScore taskText workspace)) workspaces)
      in (case workspaceMatches of
            [] \<Rightarrow> Inl TypeError
          | bestMatch # others \<Rightarrow>
              let suggestedProject =
                    (case getProjects (id' (fst bestMatch)) of
                       Listed (Some projects) \<Rightarrow>
                         if length projects > 0 then findBestProject taskText projects else None
                     | Listed None \<Rightarrow> None
                     | Unavailable msg \<Rightarrow> None
                     | Failing msg \<Rightarrow> None)
              in Inr \<lparr>workspace = fst bestMatch,
                      project = suggestedProject,
                      confidence = (if score.total (snd bestMatch) > 3 then ''high''
                                    else if score.total (snd bestMatch) > 1 then ''medium'' else ''low''),
                      reasoning = score.reasoning (snd bestMatch)\<rparr>))"

text \<open>The \<^verbatim>\<open>for (const task of extractedTasks)\<close> loop of \<^verbatim>\<open>suggestWorkspaceAndProject\<close>.\<close>

record suggestion = match +
  task :: clean_task

fun suggestWorkspaceAndProject :: "projects_api \<Rightarrow> clean_task list \<Rightarrow> motion_item list \<Rightarrow> exn + suggestion list" where
  "suggestWorkspaceAndProject getProjects [] allWorkspaces = Inr []"
| "suggestWorkspaceAndProject getProjects (t # ts) allWorkspaces =
     and_then (findBestMatch getProjects t allWorkspaces) (\<lambda>s.
     and_then (suggestWorkspaceAndProject getProjects ts allWorkspaces) (\<lambda>rest.
       Inr (\<lparr>workspace = workspace s, project = project s, confidence = match.confidence s,
             reasoning = match.reasoning s, task = t\<rparr> # rest)))"

section \<open>Queue store\<close>

datatype status = Pending | Processing | Editing | Completed | Failed

text \<open>
  A row of the task queue, for both backends. Times are milliseconds on the clock; the ISO
  strings the code stores order the same way. \<open>retry_count\<close> is \<open>None\<close> where the column is
  \<^verbatim>\<open>NULL\<close> or the JSON field is absent; \<open>workspace_suggestions\<close> exists in the file
  backend only.
\<close>

record queue_entry =
  id' :: string
  slack_message_ts :: string
  slack_channel_id :: string
  slack_user_id :: string
  extracted_tasks :: "clean_task list"
  workspace_suggestions :: "suggestion list option"
  retry_count :: "int option"
  status :: status
  error_message :: "string option"
  created_at :: nat
  last_attempt :: "nat option"

text \<open>
  The fields an \<^verbatim>\<open>updates\<close> object can carry, in the order of the object literal;
  \<^verbatim>\<open>{...row, ...updates}\<close> applies them from left to right.
\<close>

datatype field_update =
    SetStatus status
  | SetErrorMessage string
  | SetRetryCount int
  | SetExtractedTasks "clean_task list"
  | SetWorkspaceSuggestions "suggestion list"

fun apply_update :: "field_update \<Rightarrow> queue_entry \<Rightarrow> queue_entry" where
  "apply_update (SetStatus s) r = r\<lparr>status := s\<rparr>"
| "apply_update (SetErrorMessage m) r = r\<lparr>error_message := Some m\<rparr>"
| "apply_update (SetRetryCount n) r = r\<lparr>retry_count := Some n\<rparr>"
| "apply_update (SetExtractedTasks ts) r = r\<lparr>extracted_tasks := ts\<rparr>"
| "apply_update (SetWorkspaceSuggestions ss) r = r\<lparr>workspace_suggestions := Some ss\<rparr>"

definition merge_updates :: "field_update list \<Rightarrow> nat \<Rightarrow> queue_entry \<Rightarrow> queue_entry" where
  "merge_updates updates now r = (fold apply_update updates r)\<lparr>last_attempt := Some now\<rparr>"

text \<open>What the bot sends to the chat, and the requests it makes of the destination service.\<close>

datatype message =
    CouldNotFindTasksTo string
  | TasksCancelled
  | CreatingTasks nat
  | SuccessfullyCreated nat nat
  | FailedTasks "string list"
  | FailedQueuedForRetry
  | ErrorCreatingTasks string
  | ErrorProcessingTasks
  | CouldNotFindTasksToCreate
  | TasksAlready string
  | NoWorkspaceSuggestions
  | FailedToSync string

datatype event =
    PostMessage string message "string option"
  | UpdateMessage string nat message
  | CreateCall nat clean_task motion_options

datatype history = History string string "clean_task list" "string list" bool

text \<open>
  The state the handlers work on: the queue, the history table, the channel mappings (the
  \<^verbatim>\<open>motion_project_id\<close> column by channel and workspace), the configured workspace id,
  the clock, and everything sent so far. Each \<^verbatim>\<open>new Date()\<close> of a store write reads
  the clock and the clock moves on. A posted message is identified by its position in
  \<open>outbox\<close>. Transport failures of the store and of the chat are outside the model; a
  store call fails only where the data make it fail.
\<close>

record world =
  task_queue :: "queue_entry list"
  task_history :: "history list"
  channel_mappings :: "((string \<times> string) \<times> string option) list"
  MOTION_WORKSPACE_ID :: "string option"
  clock :: nat
  outbox :: "event list"

definition send :: "event \<Rightarrow> world \<Rightarrow> world" where
  "send ev w = w\<lparr>outbox := outbox w @ [ev]\<rparr>"

subsection \<open>Relational backend (SupabaseService)\<close>

text \<open>
  \<^verbatim>\<open>.update(...).eq('id', id).select().single()\<close>: every row with the id is updated, and
  the call fails unless exactly one row comes back.
\<close>

definition SupabaseService_updateTaskQueue ::
    "string \<Rightarrow> field_update list \<Rightarrow> world \<Rightarrow> (exn + queue_entry) \<times> world" where
  "SupabaseService_updateTaskQueue i updates w =
     (let now = clock w;
          rows = map (\<lambda>r. if queue_entry.id' r = i then merge_updates updates now r else r) (task_queue w);
          w' = w\<lparr>task_queue := rows, clock := now + 1\<rparr>
      in (case filter (\<lambda>r. queue_entry.id' r = i) rows of
            [r] \<Rightarrow> (Inr r, w')
          | _ \<Rightarrow> (Inl (Error ''Failed to update task queue''), w')))"

text \<open>
  \<^verbatim>\<open>.eq('status', 'pending').lt('retry_count', 3).order('created_at', {ascending: true}).limit(limit)\<close>;
  a \<^verbatim>\<open>NULL\<close> retry count satisfies no comparison. The limit is a number of rows. The
  query is modelled on the table it reads; the exception the method raises when the store
  cannot be reached is outside the model.
\<close>

definition sb_eligible :: "queue_entry \<Rightarrow> bool" where
  "sb_eligible r = (status r = Pending \<and> (case retry_count r of Some n \<Rightarrow> n < 3 | None \<Rightarrow> False))"

definition SupabaseService_getPendingTasks :: "nat \<Rightarrow> queue_entry list \<Rightarrow> queue_entry list" where
  "SupabaseService_getPendingTasks limit rows = take limit (sort_key created_at (filter sb_eligible rows))"

text \<open>\<^verbatim>\<open>getChannelMapping(...)?.motion_project_id || null\<close>\<close>

definition getChannelMapping_project :: "string \<Rightarrow> string \<Rightarrow> world \<Rightarrow> string option" where
  "getChannelMapping_project channelId slackWorkspaceId w =
     (case map_of (channel_mappings w) (channelId, slackWorkspaceId) of
        Some (Some p) \<Rightarrow> (if p = [] then None else Some p)
      | _ \<Rightarrow> None)"

definition addTaskHistory :: "history \<Rightarrow> world \<Rightarrow> world" where
  "addTaskHistory h w = w\<lparr>task_history := task_history w @ [h]\<rparr>"

subsection \<open>File backend (LocalStorageService)\<close>

text \<open>\<^verbatim>\<open>tasks.findIndex(t => t.id === id)\<close>\<close>

fun findIndex :: "('a \<Rightarrow> bool) \<Rightarrow> 'a list \<Rightarrow> nat option" where
  "findIndex P [] = None"
| "findIndex P (x # xs) = (if P x then Some 0 else map_option Suc (findIndex P xs))"

definition LocalStorageService_updateTaskQueue ::
    "string \<Rightarrow> field_update list \<Rightarrow> world \<Rightarrow> (exn + queue_entry) \<times> world" where
  "LocalStorageService_updateTaskQueue i updates w =
     (case findIndex (\<lambda>t. queue_entry.id' t = i) (task_queue w) of
        None \<Rightarrow> (Inl (Error (''Task with id '' @ i @ '' not found'')), w)
      | Some taskIndex \<Rightarrow>
          let now = clock w;
              t = merge_updates updates now (task_queue w ! taskIndex)
          in (Inr t, w\<lparr>task_queue := (task_queue w)[taskIndex := t], clock := now + 1\<rparr>))"

text \<open>\<^verbatim>\<open>t.retry_count || 0\<close>\<close>

definition retry_or_0 :: "queue_entry \<Rightarrow> int" where
  "retry_or_0 t = (case retry_count t of None \<Rightarrow> 0 | Some n \<Rightarrow> n)"

definition ls_eligible :: "queue_entry \<Rightarrow> bool" where
  "ls_eligible t = (status t = Pending \<and> retry_or_0 t < 3)"

text \<open>
  \<^verbatim>\<open>xs.slice(0, end)\<close>: a negative \<open>end\<close> counts from the end of the array, and the
  result is empty when that falls before its start.
\<close>

definition slice_from_0 :: "int \<Rightarrow> 'a list \<Rightarrow> 'a list" where
  "slice_from_0 end xs =
     (if end < 0 then take (nat (int (length xs) + end)) xs else take (nat end) xs)"

text \<open>
  \<^verbatim>\<open>tasks.filter(...).slice(0, limit)\<close>: the entries stay in the order of the file; nothing
  is sorted.
\<close>

definition LocalStorageService_getPendingTasks :: "int \<Rightarrow> queue_entry list \<Rightarrow> queue_entry list" where
  "LocalStorageService_getPendingTasks limit tasks = slice_from_0 limit (filter ls_eligible tasks)"

definition LocalStorageService_getTaskByMessage ::
    "string \<Rightarrow> string \<Rightarrow> queue_entry list \<Rightarrow> queue_entry option" where
  "LocalStorageService_getTaskByMessage messageTs channelId tasks =
     find (\<lambda>t. slack_message_ts t = messageTs \<and> slack_channel_id t = channelId) tasks"

text \<open>
  \<^verbatim>\<open>addToTaskQueue\<close> with the fields its callers pass: the id is the clock reading in
  decimal, the creation time the next reading, the status \<^verbatim>\<open>pending\<close>; the entry goes to
  the end of the file.
\<close>

definition LocalStorageService_addToTaskQueue ::
    "string \<Rightarrow> string \<Rightarrow> string \<Rightarrow> clean_task list \<Rightarrow> suggestion list \<Rightarrow> world \<Rightarrow> queue_entry \<times> world" where
  "LocalStorageService_addToTaskQueue ts channel user tasks suggestions w =
     (let newTask = \<lparr>id' = string_of_nat (clock w), slack_message_ts = ts, slack_channel_id = channel,
                      slack_user_id = user, extracted_tasks = tasks,
                      workspace_suggestions = Some suggestions, retry_count = None, status = Pending,
                      error_message = None, created_at = clock w + 1, last_attempt = None\<rparr>
      in (newTask, w\<lparr>task_queue := task_queue w @ [newTask], clock := clock w + 2\<rparr>))"

section \<open>Orchestration on the relational backend (batch handlers)\<close>

text \<open>\<^verbatim>\<open>handleTaskRejection\<close>: a failing store write is logged and swallowed.\<close>

definition handleTaskRejection :: "queue_entry \<Rightarrow> string \<Rightarrow> string \<Rightarrow> world \<Rightarrow> world" where
  "handleTaskRejection queuedTasks channelId messageTs w =
     (case SupabaseService_updateTaskQueue (queue_entry.id' queuedTasks)
             [SetStatus Failed, SetErrorMessage ''Rejected by user''] w of
        (Inl e, w1) \<Rightarrow> w1
      | (Inr row, w1) \<Rightarrow> send (PostMessage channelId TasksCancelled (Some messageTs)) w1)"

text \<open>
  The \<^verbatim>\<open>catch\<close> block of \<^verbatim>\<open>handleTaskApproval\<close>; an exception of its own store
  write leaves the function.
\<close>

definition approval_catch :: "queue_entry \<Rightarrow> string \<Rightarrow> string \<Rightarrow> exn \<Rightarrow> world \<Rightarrow> (exn + unit) \<times> world" where
  "approval_catch queuedTasks channelId messageTs e w =
     (case SupabaseService_updateTaskQueue (queue_entry.id' queuedTasks)
             [SetStatus Failed, SetErrorMessage (message_of e),
              SetRetryCount (retry_or_0 queuedTasks + 1)] w of
        (Inl e', w1) \<Rightarrow> (Inl e', w1)
      | (Inr row, w1) \<Rightarrow>
          (Inr (), send (PostMessage channelId (ErrorCreatingTasks (message_of e)) (Some messageTs)) w1))"

text \<open>
  The line of the failure list for one failed result: reading the title of a result that
  carries no task throws.
\<close>

definition failed_line :: "clean_task create_result \<Rightarrow> string option" where
  "failed_line ft =
     (case create_result.task ft of
        None \<Rightarrow> None
      | Some t \<Rightarrow> Some (title t @ '': '' @ (case error ft of None \<Rightarrow> ''undefined'' | Some m \<Rightarrow> m)))"

definition handleTaskApproval ::
    "clean_task motion_api \<Rightarrow> queue_entry \<Rightarrow> string \<Rightarrow> string \<Rightarrow> world \<Rightarrow> (exn + unit) \<times> world" where
  "handleTaskApproval api queuedTasks channelId messageTs w =
     (case SupabaseService_updateTaskQueue (queue_entry.id' queuedTasks) [SetStatus Processing] w of
        (Inl e, w1) \<Rightarrow> approval_catch queuedTasks channelId messageTs e w1
      | (Inr row, w1) \<Rightarrow>
          let processingMsg = length (outbox w1);
              w2 = send (PostMessage channelId (CreatingTasks (length (extracted_tasks queuedTasks)))
                           (Some messageTs)) w1;
              motionOptions = \<lparr>workspaceId = MOTION_WORKSPACE_ID w2,
                               projectId = getChannelMapping_project channelId ''workspace'' w2\<rparr>;
              motionResult = createMultipleTasks api (extracted_tasks queuedTasks) motionOptions
          in if batch_result.success motionResult then
               (case SupabaseService_updateTaskQueue (queue_entry.id' queuedTasks) [SetStatus Completed] w2 of
                  (Inl e, w3) \<Rightarrow> approval_catch queuedTasks channelId messageTs e w3
                | (Inr row', w3) \<Rightarrow>
                    let motionTaskIds =
                          List.map_filter (\<lambda>r. if create_result.success r then motionTaskId r else None)
                            (results motionResult);
                        w4 = addTaskHistory
                               (History messageTs channelId (extracted_tasks queuedTasks) motionTaskIds True) w3;
                        w5 = send (UpdateMessage channelId processingMsg
                                     (SuccessfullyCreated (successful motionResult) (failed motionResult))) w4
                    in if failed motionResult > 0 then
                         (case those (map failed_line (failed_tasks motionResult)) of
                            None \<Rightarrow> approval_catch queuedTasks channelId messageTs TypeError w5
                          | Some failedTasks \<Rightarrow>
                              (Inr (), send (PostMessage channelId (FailedTasks failedTasks) (Some messageTs)) w5))
                       else (Inr (), w5))
             else
               (case SupabaseService_updateTaskQueue (queue_entry.id' queuedTasks)
                       [SetStatus Failed, SetErrorMessage ''Motion API error'',
                        SetRetryCount (retry_or_0 queuedTasks + 1)] w2 of
                  (Inl e, w3) \<Rightarrow> approval_catch queuedTasks channelId messageTs e w3
                | (Inr row', w3) \<Rightarrow>
                    (Inr (), send (UpdateMessage channelId processingMsg FailedQueuedForRetry) w3)))"

text \<open>
  \<^verbatim>\<open>handleBatch\<close>, reached from the reaction handler and from the buttons with the
  action \<^verbatim>\<open>approve\<close> or \<^verbatim>\<open>reject\<close>. It reads the store client as a member of the
  service object, \<^verbatim>\<open>supabaseService.supabase\<close>. The object is an instance of
  \<^verbatim>\<open>SupabaseService\<close>, which has no such member (the client is a constant of the
  service's module), so the member is \<^verbatim>\<open>undefined\<close> and reading \<^verbatim>\<open>.from\<close> of it
  throws a TypeError before any query is made. Had the client been there, the query would
  want exactly one pending row under the key (\<^verbatim>\<open>.single()\<close>).
\<close>

definition supabaseService_supabase :: jsval where
  "supabaseService_supabase = Val Undefined"

definition pending_row_query :: "string \<Rightarrow> string \<Rightarrow> world \<Rightarrow> exn + queue_entry list" where
  "pending_row_query messageTs channelId w =
     and_then (js_get supabaseService_supabase ''from'') (\<lambda>from_member.
       Inr (filter (\<lambda>r. slack_message_ts r = messageTs \<and> slack_channel_id r = channelId \<and>
                         status r = Pending) (task_queue w)))"

text \<open>
  Every exception inside \<^verbatim>\<open>handleBatch\<close> ends in its \<^verbatim>\<open>catch\<close>, which logs it and
  posts the error message.
\<close>

definition handleBatch :: "clean_task motion_api \<Rightarrow> string \<Rightarrow> string \<Rightarrow> string \<Rightarrow> world \<Rightarrow> world" where
  "handleBatch api action messageTs channelId w =
     (case pending_row_query messageTs channelId w of
        Inl e \<Rightarrow> send (PostMessage channelId ErrorProcessingTasks (Some messageTs)) w
      | Inr [queuedTasks] \<Rightarrow>
          if action = ''reject'' then handleTaskRejection queuedTasks channelId messageTs w
          else if action = ''approve'' then
            (case handleTaskApproval api queuedTasks channelId messageTs w of
               (Inl e, w1) \<Rightarrow> send (PostMessage channelId ErrorProcessingTasks (Some messageTs)) w1
             | (Inr u, w1) \<Rightarrow> w1)
          else w
      | Inr rows \<Rightarrow> send (PostMessage channelId (CouldNotFindTasksTo action) (Some messageTs)) w)"

subsection \<open>Background retry sweep\<close>

text \<open>\<^verbatim>\<open>task.retry_count >= 3\<close> and \<^verbatim>\<open>task.retry_count + 1\<close>, where \<^verbatim>\<open>null\<close> counts as 0.\<close>

definition retry_ge_3 :: "queue_entry \<Rightarrow> bool" where
  "retry_ge_3 t = (case retry_count t of None \<Rightarrow> False | Some n \<Rightarrow> n \<ge> 3)"

definition retry_plus_1 :: "queue_entry \<Rightarrow> int" where
  "retry_plus_1 t = (case retry_count t of None \<Rightarrow> 1 | Some n \<Rightarrow> n + 1)"

text \<open>
  The \<^verbatim>\<open>for (const task of pendingTasks)\<close> loop over the rows read at the start of the
  sweep. \<open>api t\<close> answers the create calls made for entry \<open>t\<close>. An exception that reaches
  the outer \<^verbatim>\<open>catch\<close> ends the sweep.
\<close>

fun retry_loop :: "(queue_entry \<Rightarrow> clean_task motion_api) \<Rightarrow> queue_entry list \<Rightarrow> world \<Rightarrow> world" where
  "retry_loop api [] w = w"
| "retry_loop api (t # ts) w =
     (if retry_ge_3 t then
        (case SupabaseService_updateTaskQueue (queue_entry.id' t)
                [SetStatus Failed, SetErrorMessage ''Max retries exceeded''] w of
           (Inl e, w1) \<Rightarrow> w1
         | (Inr row, w1) \<Rightarrow> retry_loop api ts w1)
      else
        let motionResult = createMultipleTasks (api t) (extracted_tasks t)
                             \<lparr>workspaceId = None, projectId = None\<rparr>
        in (case SupabaseService_updateTaskQueue (queue_entry.id' t)
                   (if batch_result.success motionResult then [SetStatus Completed]
                    else [SetStatus Pending, SetRetryCount (retry_plus_1 t),
                          SetErrorMessage ''Motion sync failed'']) w of
              (Inr row, w1) \<Rightarrow> retry_loop api ts w1
            | (Inl e, w1) \<Rightarrow>
                (case SupabaseService_updateTaskQueue (queue_entry.id' t)
                        [SetStatus Pending, SetRetryCount (retry_plus_1 t),
                         SetErrorMessage (message_of e)] w1 of
                   (Inr row, w2) \<Rightarrow> retry_loop api ts w2
                 | (Inl e', w2) \<Rightarrow> w2)))"

definition processRetryQueue :: "(queue_entry \<Rightarrow> clean_task motion_api) \<Rightarrow> world \<Rightarrow> world" where
  "processRetryQueue api w = retry_loop api (SupabaseService_getPendingTasks 5 (task_queue w)) w"

section \<open>Orchestration on the file backend (button handlers)\<close>

text \<open>
  The \<^verbatim>\<open>for (let i = 0; i < storedTask.extracted_tasks.length; i++)\<close> loop of the approve
  button: task \<open>i\<close> goes with suggestion \<open>i\<close>, a task without a suggestion is skipped, and
  an exception of \<^verbatim>\<open>createTask\<close> leaves the loop. Every request is recorded in
  \<open>outbox\<close>.
\<close>

fun create_loop ::
    "clean_task motion_api \<Rightarrow> nat \<Rightarrow> clean_task list \<Rightarrow> suggestion list \<Rightarrow>
     clean_task create_result list \<Rightarrow> world \<Rightarrow> (exn + clean_task create_result list) \<times> world" where
  "create_loop api i [] ss motionResults w = (Inr motionResults, w)"
| "create_loop api i (t # ts) [] motionResults w = create_loop api (i + 1) ts [] motionResults w"
| "create_loop api i (t # ts) (s # ss) motionResults w =
     (let options = \<lparr>workspaceId = Some (motion_item.id' (workspace s)),
                     projectId = (case project s of
                                    None \<Rightarrow> None
                                  | Some p \<Rightarrow> if motion_item.id' p = [] then None
                                              else Some (motion_item.id' p))\<rparr>;
          w1 = send (CreateCall i t options) w
      in (case createTask api i t options of
            Inl e \<Rightarrow> (Inl e, w1)
          | Inr result \<Rightarrow> create_loop api (i + 1) ts ss (motionResults @ [result]) w1))"

text \<open>
  \<^verbatim>\<open>app.action('approve_tasks')\<close>. Exceptions end in the handler's \<^verbatim>\<open>catch\<close>, which
  only logs.
\<close>

definition approve_tasks :: "clean_task motion_api \<Rightarrow> string \<Rightarrow> string \<Rightarrow> world \<Rightarrow> world" where
  "approve_tasks api messageTs channelId w =
     (case LocalStorageService_getTaskByMessage messageTs channelId (task_queue w) of
        None \<Rightarrow> send (PostMessage channelId CouldNotFindTasksToCreate (Some messageTs)) w
      | Some storedTask \<Rightarrow>
          if status storedTask \<noteq> Pending then
            send (PostMessage channelId
                    (TasksAlready (if status storedTask = Completed then ''created'' else ''being processed''))
                    (Some messageTs)) w
          else
            (case LocalStorageService_updateTaskQueue (queue_entry.id' storedTask) [SetStatus Processing] w of
               (Inl e, w1) \<Rightarrow> w1
             | (Inr row, w1) \<Rightarrow>
                 let processingMsg = length (outbox w1);
                     w2 = send (PostMessage channelId
                                  (CreatingTasks (length (extracted_tasks storedTask))) (Some messageTs)) w1;
                     workspaceSuggestions =
                       (case workspace_suggestions storedTask of None \<Rightarrow> [] | Some ss \<Rightarrow> ss)
                 in if length workspaceSuggestions = 0 then
                      send (UpdateMessage channelId processingMsg NoWorkspaceSuggestions) w2
                    else
                      (case create_loop api 0 (extracted_tasks storedTask) workspaceSuggestions [] w2 of
                         (Inl e, w3) \<Rightarrow> w3
                       | (Inr motionResults, w3) \<Rightarrow>
                           let n_successful = length (filter (\<lambda>r. create_result.success r) motionResults);
                               n_failed = length (filter (\<lambda>r. \<not> create_result.success r) motionResults)
                           in if n_successful > 0 then
                                (case LocalStorageService_updateTaskQueue (queue_entry.id' storedTask)
                                        [SetStatus Completed] w3 of
                                   (Inl e, w4) \<Rightarrow> w4
                                 | (Inr row', w4) \<Rightarrow>
                                     send (UpdateMessage channelId processingMsg
                                             (SuccessfullyCreated n_successful n_failed)) w4)
                              else
                                (case LocalStorageService_updateTaskQueue (queue_entry.id' storedTask)
                                        [SetStatus Failed, SetErrorMessage ''Motion API error''] w3 of
                                   (Inl e, w4) \<Rightarrow> w4
                                 | (Inr row', w4) \<Rightarrow>
                                     send (UpdateMessage channelId processingMsg
                                             (FailedToSync ''Unknown error'')) w4))))"

section \<open>Specification-side definitions and fixtures\<close>

subsection \<open>What listing the pending entries means\<close>

text \<open>
  The contract of \<^verbatim>\<open>listPending(limit)\<close> in the words of the specification, for an
  eligibility test \<open>elig\<close>: the result \<open>r\<close> holds eligible entries of the store only, none
  more often than the store does; it is ordered oldest first; it has \<open>limit\<close> entries, or
  all the eligible ones when they are fewer; and every eligible entry left out is at least
  as young as every entry returned.
\<close>

definition lists_pending ::
    "(queue_entry \<Rightarrow> bool) \<Rightarrow> nat \<Rightarrow> queue_entry list \<Rightarrow> queue_entry list \<Rightarrow> bool" where
  "lists_pending elig limit store r \<longleftrightarrow>
     (\<forall>e \<in> set r. elig e) \<and>
     mset r \<subseteq># mset (filter elig store) \<and>
     sorted (map created_at r) \<and>
     length r = min limit (length (filter elig store)) \<and>
     (\<forall>e \<in># mset (filter elig store) - mset r. \<forall>x \<in> set r. created_at x \<le> created_at e)"

text \<open>
  The file backend keeps its entries in the order they were added, and never stamps an
  entry with a time ahead of the clock.
\<close>

definition creation_ordered :: "world \<Rightarrow> bool" where
  "creation_ordered w \<longleftrightarrow>
     sorted (map created_at (task_queue w)) \<and> (\<forall>e \<in> set (task_queue w). created_at e \<le> clock w)"

text \<open>An entry for the examples below: one extracted task, everything else fixed.\<close>

definition example_entry :: "string \<Rightarrow> string \<Rightarrow> nat \<Rightarrow> status \<Rightarrow> int option \<Rightarrow> queue_entry" where
  "example_entry i ts created st retries =
     \<lparr>id' = i, slack_message_ts = ts, slack_channel_id = ''C1'', slack_user_id = ''U1'',
      extracted_tasks = [\<lparr>title = ''Finish the report'', assignee = Str ''Jenny'', due_date = Str ''Friday'',
                          confidence = Str ''high'', context = Str [], priority = Str ''medium'',
                          estimated_time = Null\<rparr>],
      workspace_suggestions = None, retry_count = retries, status = st, error_message = None,
      created_at = created, last_attempt = None\<rparr>"

text \<open>A state for the examples: the given queue, nothing sent yet, the clock at 0.\<close>

definition example_world :: "queue_entry list \<Rightarrow> world" where
  "example_world q =
     \<lparr>task_queue = q, task_history = [], channel_mappings = [], MOTION_WORKSPACE_ID = Some ''W1'',
      clock = 0, outbox = []\<rparr>"




section \<open>Properties of the sync client\<close>

lemma map_shift_enumerate:
  "map (\<lambda>(index, t). g (i + index) t) (enumerate n xs) = map (\<lambda>(k, t). g k t) (enumerate (i + n) xs)"
  by (induction xs arbitrary: n) simp_all

lemma batches_eq:
  "batches api options tasks i acc =
     acc @ map (\<lambda>(k, t). attempt api options k t) (enumerate i (drop i tasks))"
proof (induction api options tasks i acc rule: batches.induct)
  case (1 api options tasks i acc)
  show ?case
  proof (cases "i < length tasks")
    case False
    then show ?thesis by (simp add: batches.simps [of api options tasks i acc])
  next
    case True
    let ?f = "\<lambda>(k, t). attempt api options k t"
    let ?b = "take batchSize (drop i tasks)"
    let ?r = "drop (i + batchSize) tasks"
    have step: "batches api options tasks i acc =
        batches api options tasks (i + batchSize)
          (acc @ map (\<lambda>(index, t). attempt api options (i + index) t) (enumerate 0 ?b))"
      using True by (simp add: batches.simps [of api options tasks i acc] Let_def)
    have ih: "batches api options tasks (i + batchSize)
          (acc @ map (\<lambda>(index, t). attempt api options (i + index) t) (enumerate 0 ?b)) =
        (acc @ map (\<lambda>(index, t). attempt api options (i + index) t) (enumerate 0 ?b)) @
        map ?f (enumerate (i + batchSize) ?r)"
      using "1.IH" [OF True refl refl] .
    have shift: "map (\<lambda>(index, t). attempt api options (i + index) t) (enumerate 0 ?b) =
        map ?f (enumerate i ?b)"
      using map_shift_enumerate [of "attempt api options" i 0 ?b] by simp
    have split: "drop i tasks = ?b @ ?r"
      by (metis append_take_drop_id drop_drop add.commute)
    have rest: "enumerate (i + length ?b) ?r = enumerate (i + batchSize) ?r"
    proof (cases "i + batchSize \<le> length tasks")
      case True
      then have "length ?b = batchSize" by simp
      then show ?thesis by simp
    next
      case False
      then have "?r = []" by simp
      then show ?thesis by simp
    qed
    have "enumerate i (drop i tasks) = enumerate i (?b @ ?r)"
      using split by simp
    also have "\<dots> = enumerate i ?b @ enumerate (i + batchSize) ?r"
      using rest by (simp only: enumerate_append_eq)
    finally have en: "map ?f (enumerate i (drop i tasks)) =
        map ?f (enumerate i ?b) @ map ?f (enumerate (i + batchSize) ?r)"
      by (simp only: map_append)
    have "batches api options tasks i acc =
        (acc @ map ?f (enumerate i ?b)) @ map ?f (enumerate (i + batchSize) ?r)"
      using step ih shift by (simp only:)
    also have "\<dots> = acc @ map ?f (enumerate i (drop i tasks))"
      using en by (simp only: append_assoc)
    finally show ?thesis .
  qed
qed

lemma results_createMultipleTasks:
  "results (createMultipleTasks api tasks options) =
     map (\<lambda>(k, t). attempt api options k t) (enumerate 0 tasks)"
  by (simp add: createMultipleTasks_def Let_def batches_eq)

lemma success_createMultipleTasks:
  "batch_result.success (createMultipleTasks api tasks options) =
     list_all (\<lambda>r. create_result.success r) (results (createMultipleTasks api tasks options))"
  by (simp add: createMultipleTasks_def Let_def filter_empty_conv list_all_iff)

text \<open>
  C10. \<^verbatim>\<open>createMultipleTasks\<close> returns one result per input task, in input order: the
  result at position \<open>i\<close> is the outcome of the create call for the task at position \<open>i\<close>.
  Its overall success flag is true exactly when every result has success true.
\<close>

theorem createMultipleTasks_one_result_per_task:
  "length (results (createMultipleTasks api tasks options)) = length tasks \<and>
   (\<forall>i < length tasks.
      results (createMultipleTasks api tasks options) ! i = attempt api options i (tasks ! i)) \<and>
   (batch_result.success (createMultipleTasks api tasks options) \<longleftrightarrow>
      (\<forall>r \<in> set (results (createMultipleTasks api tasks options)). create_result.success r))"
proof (intro conjI allI impI)
  show "length (results (createMultipleTasks api tasks options)) = length tasks"
    by (simp add: results_createMultipleTasks)
next
  fix i assume "i < length tasks"
  then show "results (createMultipleTasks api tasks options) ! i = attempt api options i (tasks ! i)"
    by (simp add: results_createMultipleTasks nth_enumerate_eq)
next
  show "batch_result.success (createMultipleTasks api tasks options) \<longleftrightarrow>
      (\<forall>r \<in> set (results (createMultipleTasks api tasks options)). create_result.success r)"
    by (simp add: success_createMultipleTasks list_all_iff)
qed

theorem createMultipleTasks_one_result_per_task_witness:
  "length (results (createMultipleTasks
       (\<lambda>i t opts. if i = 11 then Refused ''Rate limit exceeded'' else Created ''id'')
       (replicate 12 ''task'') \<lparr>workspaceId = None, projectId = None\<rparr>)) = 12 \<and>
   results (createMultipleTasks
       (\<lambda>i t opts. if i = 11 then Refused ''Rate limit exceeded'' else Created ''id'')
       (replicate 12 ''task'') \<lparr>workspaceId = None, projectId = None\<rparr>) ! 11 =
     \<lparr>create_result.success = False, motionTaskId = None, error = Some ''Rate limit exceeded'', task = None\<rparr> \<and>
   \<not> batch_result.success (createMultipleTasks
       (\<lambda>i t opts. if i = 11 then Refused ''Rate limit exceeded'' else Created ''id'')
       (replicate 12 ''task'') \<lparr>workspaceId = None, projectId = None\<rparr>)"
proof -
  let ?api = "\<lambda>(i::nat) (t::string) (opts::motion_options).
                if i = 11 then Refused ''Rate limit exceeded'' else Created ''id''"
  let ?opts = "\<lparr>workspaceId = None, projectId = None\<rparr>"
  let ?r = "createMultipleTasks ?api (replicate 12 ''task'') ?opts"
  note spec = createMultipleTasks_one_result_per_task [of ?api "replicate 12 ''task''" ?opts]
  have len: "length (results ?r) = 12"
    using spec by simp
  have "results ?r ! 11 = attempt ?api ?opts 11 (replicate 12 ''task'' ! 11)"
    using spec by simp
  then have at: "results ?r ! 11 =
      \<lparr>create_result.success = False, motionTaskId = None, error = Some ''Rate limit exceeded'', task = None\<rparr>"
    by (simp add: attempt_def createTask_def)
  have "results ?r ! 11 \<in> set (results ?r)"
    using len by (intro nth_mem) simp
  with at have "\<exists>r \<in> set (results ?r). \<not> create_result.success r"
    by (intro bexI [of _ "results ?r ! 11"]) simp_all
  with spec have "\<not> batch_result.success ?r"
    by blast
  with len at show ?thesis by simp
qed
section \<open>Properties of the validators\<close>

lemma forEach_validate_all_valid:
  "(\<forall>t \<in> set ts. \<exists>v. validateTask t = Inr v \<and> valid v) \<Longrightarrow> forEach_validate index ts = Inr []"
proof (induction ts arbitrary: index)
  case Nil
  show ?case by simp
next
  case (Cons t ts)
  from Cons.prems obtain v where v: "validateTask t = Inr v" "valid v"
    by auto
  from Cons.prems have "\<forall>t \<in> set ts. \<exists>v. validateTask t = Inr v \<and> valid v"
    by simp
  then have "forEach_validate (index + 1) ts = Inr []"
    by (rule Cons.IH)
  with v show ?case
    by (simp add: and_then_def)
qed

text \<open>
  C5. A batch of one to ten tasks, each of which \<^verbatim>\<open>validateTask\<close> accepts, is accepted
  by \<^verbatim>\<open>validateTaskBatch\<close>; an empty array and an array of more than ten elements are
  rejected, each with its own one-line error.
\<close>

theorem validateTaskBatch_accepts_1_to_10:
  "(1 \<le> length tasks \<and> length tasks \<le> 10 \<and>
      (\<forall>t \<in> set tasks. \<exists>v. validateTask t = Inr v \<and> valid v) \<longrightarrow>
      validateTaskBatch (Array tasks) = Inr \<lparr>valid = True, errors = []\<rparr>) \<and>
   (length tasks = 0 \<longrightarrow>
      validateTaskBatch (Array tasks) = Inr \<lparr>valid = False, errors = [''At least one task is required'']\<rparr>) \<and>
   (length tasks > 10 \<longrightarrow>
      validateTaskBatch (Array tasks) =
        Inr \<lparr>valid = False, errors = [''Maximum 10 tasks allowed per batch'']\<rparr>)"
proof (intro conjI impI)
  assume a: "1 \<le> length tasks \<and> length tasks \<le> 10 \<and>
      (\<forall>t \<in> set tasks. \<exists>v. validateTask t = Inr v \<and> valid v)"
  then have "forEach_validate 0 tasks = Inr []"
    by (intro forEach_validate_all_valid) simp
  moreover from a have "tasks \<noteq> []"
    by auto
  ultimately show "validateTaskBatch (Array tasks) = Inr \<lparr>valid = True, errors = []\<rparr>"
    using a by (simp add: validateTaskBatch_def and_then_def)
next
  assume "length tasks = 0"
  then show "validateTaskBatch (Array tasks) =
      Inr \<lparr>valid = False, errors = [''At least one task is required'']\<rparr>"
    by (simp add: validateTaskBatch_def)
next
  assume "length tasks > 10"
  moreover from this have "tasks \<noteq> []"
    by auto
  ultimately show "validateTaskBatch (Array tasks) =
      Inr \<lparr>valid = False, errors = [''Maximum 10 tasks allowed per batch'']\<rparr>"
    by (simp add: validateTaskBatch_def)
qed

lemma validateTask_example:
  "validateTask (Obj [(''title'', Str ''Finish the report''), (''assignee'', Str ''Jenny'')]) =
     Inr \<lparr>valid = True, errors = []\<rparr>"
  by (simp add: validateTask_def and_then_def title_errors_def trim_def is_space_def)

theorem validateTaskBatch_accepts_1_to_10_witness:
  "validateTaskBatch
     (Array [Obj [(''title'', Str ''Finish the report''), (''assignee'', Str ''Jenny'')]]) =
     Inr \<lparr>valid = True, errors = []\<rparr> \<and>
   validateTaskBatch (Array []) = Inr \<lparr>valid = False, errors = [''At least one task is required'']\<rparr> \<and>
   validateTaskBatch (Array (replicate 11 (Val Null))) =
     Inr \<lparr>valid = False, errors = [''Maximum 10 tasks allowed per batch'']\<rparr>"
  using validateTaskBatch_accepts_1_to_10
      [of "[Obj [(''title'', Str ''Finish the report''), (''assignee'', Str ''Jenny'')]]"]
    validateTaskBatch_accepts_1_to_10 [of "[]"]
    validateTaskBatch_accepts_1_to_10 [of "replicate 11 (Val Null)"]
    validateTask_example
  by simp

lemma js_get_field_of:
  "t \<noteq> Val Undefined \<Longrightarrow> t \<noteq> Val Null \<Longrightarrow> js_get t k = Inr (field_of t k)"
proof (cases t)
  case (Val v)
  assume "t \<noteq> Val Undefined" "t \<noteq> Val Null"
  with Val show ?thesis
    by (cases v) (simp_all add: field_of_def)
next
  case (Obj fs)
  then show ?thesis
    by (simp add: field_of_def split: option.splits)
qed

lemma is_level_truthy: "is_level c \<Longrightarrow> truthy c"
  by (auto simp: is_level_def)

lemma is_level_medium: "is_level (Str ''medium'')"
  by (simp add: is_level_def)

lemma level_or_medium:
  "(if \<not> is_level (js_or c (Str ''medium'')) then Str ''medium'' else js_or c (Str ''medium'')) =
   (if is_level c then c else Str ''medium'')"
  using is_level_truthy [of c] is_level_medium by (cases "truthy c") (auto simp: js_or_def)

lemma nonempty_string_iff: "truthy v \<and> is_string v \<longleftrightarrow> (\<exists>s. v = Str s \<and> s \<noteq> [])"
  by (cases v) simp_all

text \<open>
  C7, as the code has it. A task that is not \<^verbatim>\<open>null\<close> or \<^verbatim>\<open>undefined\<close> is dropped
  exactly when its title is not a non-empty string: missing, not a string, or the empty
  string. A kept task has its title trimmed; a confidence or priority that is not one of
  high, medium, low (absent ones included) becomes medium; an absent or falsy assignee
  becomes \<^verbatim>\<open>'infer_from_context'\<close>, due_date and estimated_time become \<^verbatim>\<open>null\<close> and
  context the empty string.
\<close>

theorem ClaudeService_validateTask_drops_and_defaults:
  assumes "t \<noteq> Val Undefined" and "t \<noteq> Val Null"
  shows "(ClaudeService_validateTask t = Inr None \<longleftrightarrow>
            \<not> (\<exists>s. field_of t ''title'' = Str s \<and> s \<noteq> [])) \<and>
         ((\<exists>s. field_of t ''title'' = Str s \<and> s \<noteq> []) \<longrightarrow>
            ClaudeService_validateTask t = Inr (Some
              \<lparr>title = trim (to_string (field_of t ''title'')),
               assignee = js_or (field_of t ''assignee'') (Str ''infer_from_context''),
               due_date = js_or (field_of t ''due_date'') Null,
               confidence = (if is_level (field_of t ''confidence'')
                             then field_of t ''confidence'' else Str ''medium''),
               context = js_or (field_of t ''context'') (Str []),
               priority = (if is_level (field_of t ''priority'')
                           then field_of t ''priority'' else Str ''medium''),
               estimated_time = js_or (field_of t ''estimated_time'') Null\<rparr>))"
proof -
  note get = js_get_field_of [OF assms]
  have dropped: "ClaudeService_validateTask t = Inr None"
    if "\<not> (truthy (field_of t ''title'') \<and> is_string (field_of t ''title''))"
    using that by (auto simp: ClaudeService_validateTask_def and_then_def get)
  have kept: "ClaudeService_validateTask t = Inr (Some
              \<lparr>title = trim (to_string (field_of t ''title'')),
               assignee = js_or (field_of t ''assignee'') (Str ''infer_from_context''),
               due_date = js_or (field_of t ''due_date'') Null,
               confidence = (if is_level (field_of t ''confidence'')
                             then field_of t ''confidence'' else Str ''medium''),
               context = js_or (field_of t ''context'') (Str []),
               priority = (if is_level (field_of t ''priority'')
                           then field_of t ''priority'' else Str ''medium''),
               estimated_time = js_or (field_of t ''estimated_time'') Null\<rparr>)"
    if "truthy (field_of t ''title'') \<and> is_string (field_of t ''title'')"
  proof -
    have "ClaudeService_validateTask t = Inr (Some
              \<lparr>title = trim (to_string (field_of t ''title'')),
               assignee = js_or (field_of t ''assignee'') (Str ''infer_from_context''),
               due_date = js_or (field_of t ''due_date'') Null,
               confidence = (if \<not> is_level (js_or (field_of t ''confidence'') (Str ''medium''))
                             then Str ''medium'' else js_or (field_of t ''confidence'') (Str ''medium'')),
               context = js_or (field_of t ''context'') (Str []),
               priority = (if \<not> is_level (js_or (field_of t ''priority'') (Str ''medium''))
                           then Str ''medium'' else js_or (field_of t ''priority'') (Str ''medium'')),
               estimated_time = js_or (field_of t ''estimated_time'') Null\<rparr>)"
      using that by (simp add: ClaudeService_validateTask_def and_then_def get Let_def)
    then show ?thesis
      by (simp only: level_or_medium)
  qed
  show ?thesis
    using dropped kept nonempty_string_iff [of "field_of t ''title''"] by auto
qed

theorem ClaudeService_validateTask_drops_and_defaults_witness:
  "ClaudeService_validateTask
     (Obj [(''title'', Str '' Call Sam ''), (''confidence'', Str ''certain''), (''priority'', Str ''low'')]) =
   Inr (Some \<lparr>title = ''Call Sam'', assignee = Str ''infer_from_context'', due_date = Null,
               confidence = Str ''medium'', context = Str [], priority = Str ''low'',
               estimated_time = Null\<rparr>)"
  using ClaudeService_validateTask_drops_and_defaults
    [of "Obj [(''title'', Str '' Call Sam ''), (''confidence'', Str ''certain''), (''priority'', Str ''low'')]"]
  by (simp add: field_of_def js_or_def is_level_def trim_def is_space_def)

text \<open>
  The claim as written fails twice: a title that is present and a string, but empty, is
  dropped; and an absent assignee is defaulted to \<^verbatim>\<open>'infer_from_context'\<close>, which is
  neither \<^verbatim>\<open>null\<close> nor the empty string.
\<close>

theorem ClaudeService_validateTask_counterexample:
  "js_get (Obj [(''title'', Str [])]) ''title'' = Inr (Str []) \<and> is_string (Str []) \<and>
   ClaudeService_validateTask (Obj [(''title'', Str [])]) = Inr None \<and>
   js_get (Obj [(''title'', Str ''Call Sam'')]) ''assignee'' = Inr Undefined \<and>
   ClaudeService_validateTask (Obj [(''title'', Str ''Call Sam'')]) =
     Inr (Some \<lparr>title = ''Call Sam'', assignee = Str ''infer_from_context'', due_date = Null,
                 confidence = Str ''medium'', context = Str [], priority = Str ''medium'',
                 estimated_time = Null\<rparr>)"
  by (simp add: ClaudeService_validateTask_def and_then_def js_or_def is_level_def trim_def is_space_def)
section \<open>Properties of the text utilities\<close>

lemma extractQuotedText_no_quoted_line:
  "(\<forall>line \<in> set (split_on (CHR 0x0A) s). \<not> prefix ''>'' (trim line)) \<Longrightarrow>
   extractQuotedText (Str s) = []"
proof -
  assume a: "\<forall>line \<in> set (split_on (CHR 0x0A) s). \<not> prefix ''>'' (trim line)"
  then have "filter (\<lambda>line. prefix ''>'' (trim line)) (split_on (CHR 0x0A) s) = []"
    by (simp add: filter_empty_conv)
  then show ?thesis
    by (simp add: extractQuotedText_def Let_def)
qed

text \<open>
  C8, as the code has it. A line counts as quoted when it starts with \<^verbatim>\<open>>\<close> after
  trimming; for a text none of whose lines does, \<^verbatim>\<open>extractQuotedText\<close> returns the
  empty string, and the two quoted lines of the example are joined with a space.
\<close>

theorem extractQuotedText_quoted_lines:
  "((\<forall>line \<in> set (split_on (CHR 0x0A) s). \<not> prefix ''>'' (trim line)) \<longrightarrow>
      extractQuotedText (Str s) = []) \<and>
   extractQuotedText (Str (''> a'' @ [CHR 0x0A] @ ''> b'')) = ''a b''"
proof (intro conjI impI)
  assume "\<forall>line \<in> set (split_on (CHR 0x0A) s). \<not> prefix ''>'' (trim line)"
  then show "extractQuotedText (Str s) = []"
    by (rule extractQuotedText_no_quoted_line)
next
  show "extractQuotedText (Str (''> a'' @ [CHR 0x0A] @ ''> b'')) = ''a b''"
    by (simp add: extractQuotedText_def Let_def trim_def is_space_def)
qed

theorem extractQuotedText_quoted_lines_witness:
  "extractQuotedText (Str (''hello'' @ [CHR 0x0A] @ ''a > b'')) = [] \<and>
   extractQuotedText (Str (''> a'' @ [CHR 0x0A] @ ''> b'')) = ''a b''"
  using extractQuotedText_quoted_lines [of "''hello'' @ [CHR 0x0A] @ ''a > b''"]
  by (simp add: trim_def is_space_def)

text \<open>
  The claim as written fails on an indented quote: in \<^verbatim>\<open>" >a"\<close> no line starts with
  \<^verbatim>\<open>>\<close>, yet the line passes the filter, which trims first, and the result is not empty.
\<close>

theorem extractQuotedText_counterexample:
  "split_on (CHR 0x0A) '' >a'' = ['' >a''] \<and> \<not> prefix ''>'' '' >a'' \<and>
   extractQuotedText (Str '' >a'') = ''>a''"
  by (simp add: extractQuotedText_def Let_def trim_def is_space_def)
section \<open>Properties of the destination-matching heuristic\<close>

lemma sort_desc_first:
  assumes "sort_desc f xs = y # ys"
  shows "y \<in> set xs \<and> (\<forall>x \<in> set xs. f x \<le> f y)"
proof -
  have "set (y # ys) = set xs"
    using assms by (metis sort_desc_def set_sort)
  moreover have "sorted (map (\<lambda>x. - f x) (y # ys))"
    using assms by (metis sort_desc_def sorted_sort_key)
  ultimately show ?thesis
    by auto
qed

lemma sort_desc_nonempty: "xs \<noteq> [] \<Longrightarrow> sort_desc f xs \<noteq> []"
  by (metis sort_desc_def length_sort length_0_conv)

text \<open>
  C6. For a non-empty workspace list \<^verbatim>\<open>findBestMatch\<close> returns one of the workspaces,
  one whose score no other workspace exceeds, and labels it high exactly when that score is
  above 3, medium exactly when it is above 1 but not above 3, and low exactly when it is at
  most 1.
\<close>

theorem findBestMatch_confidence_thresholds:
  assumes "workspaces \<noteq> []"
  shows "\<exists>m. findBestMatch getProjects t workspaces = Inr m \<and>
           workspace m \<in> set workspaces \<and>
           (\<forall>w \<in> set workspaces.
              score.total (calculateWorkspaceScore (taskText_of t) w)
                \<le> score.total (calculateWorkspaceScore (taskText_of t) (workspace m))) \<and>
           (match.confidence m = ''high'' \<longleftrightarrow>
              score.total (calculateWorkspaceScore (taskText_of t) (workspace m)) > 3) \<and>
           (match.confidence m = ''medium'' \<longleftrightarrow>
              score.total (calculateWorkspaceScore (taskText_of t) (workspace m)) > 1 \<and>
              score.total (calculateWorkspaceScore (taskText_of t) (workspace m)) \<le> 3) \<and>
           (match.confidence m = ''low'' \<longleftrightarrow>
              score.total (calculateWorkspaceScore (taskText_of t) (workspace m)) \<le> 1)"
proof -
  let ?calc = "calculateWorkspaceScore (taskText_of t)"
  let ?pairs = "map (\<lambda>workspace. (workspace, ?calc workspace)) workspaces"
  let ?f = "\<lambda>m :: motion_item \<times> score. score.total (snd m)"
  from assms have "sort_desc ?f ?pairs \<noteq> []"
    by (intro sort_desc_nonempty) simp
  then obtain best others where sorted: "sort_desc ?f ?pairs = best # others"
    by (cases "sort_desc ?f ?pairs") auto
  from sort_desc_first [OF sorted]
  have mem: "best \<in> set ?pairs" and top: "\<forall>x \<in> set ?pairs. ?f x \<le> ?f best"
    by blast+
  from mem have best: "fst best \<in> set workspaces" "snd best = ?calc (fst best)"
    by auto
  from top best have max: "\<forall>w \<in> set workspaces. score.total (?calc w) \<le> score.total (?calc (fst best))"
    by auto
  obtain m where m: "findBestMatch getProjects t workspaces = Inr m" "workspace m = fst best"
    "match.confidence m = (if score.total (snd best) > 3 then ''high''
                           else if score.total (snd best) > 1 then ''medium'' else ''low'')"
    using sorted by (simp add: findBestMatch_def Let_def)
  from m(3) best(2) have
    "match.confidence m = ''high'' \<longleftrightarrow> score.total (?calc (fst best)) > 3"
    "match.confidence m = ''medium'' \<longleftrightarrow>
       score.total (?calc (fst best)) > 1 \<and> score.total (?calc (fst best)) \<le> 3"
    "match.confidence m = ''low'' \<longleftrightarrow> score.total (?calc (fst best)) \<le> 1"
    by auto
  with m(1,2) best(1) max show ?thesis
    by auto
qed

theorem findBestMatch_confidence_thresholds_witness:
  "\<exists>m. findBestMatch (\<lambda>w. Unavailable ''Resource not found'')
          \<lparr>title = ''Book doctor appointment'', assignee = Null, due_date = Null,
           confidence = Str ''high'', context = Str [], priority = Str ''medium'',
           estimated_time = Null\<rparr>
          [\<lparr>motion_item.id' = ''w0'', name = ''DKC''\<rparr>, \<lparr>motion_item.id' = ''w1'', name = ''Personal''\<rparr>] = Inr m \<and>
        workspace m = \<lparr>motion_item.id' = ''w1'', name = ''Personal''\<rparr> \<and> match.confidence m = ''medium''"
proof -
  let ?t = "\<lparr>title = ''Book doctor appointment'', assignee = Null, due_date = Null,
           confidence = Str ''high'', context = Str [], priority = Str ''medium'',
           estimated_time = Null\<rparr>"
  let ?ws = "[\<lparr>motion_item.id' = ''w0'', name = ''DKC''\<rparr>, \<lparr>motion_item.id' = ''w1'', name = ''Personal''\<rparr>]"
  have ne: "?ws \<noteq> []" by simp
  have s0: "score.total (calculateWorkspaceScore (taskText_of ?t) \<lparr>motion_item.id' = ''w0'', name = ''DKC''\<rparr>) = 0"
    by code_simp
  have s1: "score.total (calculateWorkspaceScore (taskText_of ?t) \<lparr>motion_item.id' = ''w1'', name = ''Personal''\<rparr>) = 3"
    by code_simp
  from findBestMatch_confidence_thresholds [OF ne, of "\<lambda>w. Unavailable ''Resource not found''" ?t]
  obtain m where m: "findBestMatch (\<lambda>w. Unavailable ''Resource not found'') ?t ?ws = Inr m"
    "workspace m \<in> set ?ws"
    "\<forall>w \<in> set ?ws. score.total (calculateWorkspaceScore (taskText_of ?t) w)
        \<le> score.total (calculateWorkspaceScore (taskText_of ?t) (workspace m))"
    "match.confidence m = ''medium'' \<longleftrightarrow>
        score.total (calculateWorkspaceScore (taskText_of ?t) (workspace m)) > 1 \<and>
        score.total (calculateWorkspaceScore (taskText_of ?t) (workspace m)) \<le> 3"
    by blast
  from m(2,3) s0 s1 have w: "workspace m = \<lparr>motion_item.id' = ''w1'', name = ''Personal''\<rparr>"
    by auto
  with m(4) s1 have "match.confidence m = ''medium''"
    by simp
  with m(1) w show ?thesis
    by blast
qed
section \<open>Properties of the queue store\<close>

lemma take_of_sorted_lists_pending:
  assumes "sorted (map created_at xs)" and "mset xs = mset (filter elig store)"
  shows "lists_pending elig limit store (take limit xs)"
proof -
  have "set xs = set (filter elig store)"
    using assms(2) by (rule mset_eq_setD)
  then have elig: "\<forall>e \<in> set xs. elig e"
    by simp
  have "set (take limit xs) \<subseteq> set xs"
    by (rule set_take_subset)
  with elig have 1: "\<forall>e \<in> set (take limit xs). elig e"
    by blast
  have split: "mset xs = mset (take limit xs) + mset (drop limit xs)"
    by (metis append_take_drop_id mset_append)
  then have 2: "mset (take limit xs) \<subseteq># mset (filter elig store)"
    using assms(2) by (metis mset_subset_eq_add_left)
  have 3: "sorted (map created_at (take limit xs))"
    using assms(1) by (simp add: take_map [symmetric] sorted_wrt_take)
  have "length xs = length (filter elig store)"
    using assms(2) by (metis size_mset)
  then have 4: "length (take limit xs) = min limit (length (filter elig store))"
    by (simp add: min.commute)
  have rest: "mset (filter elig store) - mset (take limit xs) = mset (drop limit xs)"
    using split assms(2) by (metis add_diff_cancel_left')
  have "sorted (map created_at (take limit xs @ drop limit xs))"
    using assms(1) by simp
  then have "\<forall>x \<in> set (take limit xs). \<forall>e \<in> set (drop limit xs). created_at x \<le> created_at e"
    by (simp only: map_append sorted_append) auto
  with rest have 5: "\<forall>e \<in># mset (filter elig store) - mset (take limit xs).
      \<forall>x \<in> set (take limit xs). created_at x \<le> created_at e"
    by auto
  from 1 2 3 4 5 show ?thesis
    unfolding lists_pending_def by blast
qed

text \<open>
  C3, as the code has it. On the relational backend \<^verbatim>\<open>getPendingTasks(limit)\<close> lists the
  pending entries whose retry count is below 3, the oldest ones, oldest first, capped at
  \<open>limit\<close>, for every table. The file backend takes the pending entries whose retry count is
  absent or below 3 in the order of the file and does not sort them: for a limit that is
  not negative it returns the first \<open>limit\<close> of them, or all when they are fewer, and for a
  negative limit it leaves out that many from the end. What it returns is oldest first
  when the file is in creation order.
\<close>

theorem getPendingTasks_lists_pending:
  "lists_pending sb_eligible limit rows (SupabaseService_getPendingTasks limit rows) \<and>
   (\<forall>e. sb_eligible e \<longleftrightarrow> status e = Pending \<and> (\<exists>n. retry_count e = Some n \<and> n < 3)) \<and>
   length (SupabaseService_getPendingTasks limit rows) \<le> limit \<and>
   (\<forall>e. ls_eligible e \<longleftrightarrow>
        status e = Pending \<and> (retry_count e = None \<or> (\<exists>n. retry_count e = Some n \<and> n < 3))) \<and>
   prefix (LocalStorageService_getPendingTasks file_limit tasks) (filter ls_eligible tasks) \<and>
   (0 \<le> file_limit \<longrightarrow>
      length (LocalStorageService_getPendingTasks file_limit tasks) =
        min (nat file_limit) (length (filter ls_eligible tasks))) \<and>
   (file_limit < 0 \<longrightarrow>
      length (LocalStorageService_getPendingTasks file_limit tasks) =
        length (filter ls_eligible tasks) - nat (- file_limit)) \<and>
   (0 \<le> file_limit \<and> sorted (map created_at tasks) \<longrightarrow>
      lists_pending ls_eligible (nat file_limit) tasks
        (LocalStorageService_getPendingTasks file_limit tasks))"
proof (intro conjI impI allI)
  show "lists_pending sb_eligible limit rows (SupabaseService_getPendingTasks limit rows)"
    unfolding SupabaseService_getPendingTasks_def
    by (rule take_of_sorted_lists_pending) simp_all
next
  fix e
  show "sb_eligible e \<longleftrightarrow> status e = Pending \<and> (\<exists>n. retry_count e = Some n \<and> n < 3)"
    by (cases "retry_count e") (simp_all add: sb_eligible_def)
next
  show "length (SupabaseService_getPendingTasks limit rows) \<le> limit"
    by (simp add: SupabaseService_getPendingTasks_def)
next
  fix e
  show "ls_eligible e \<longleftrightarrow>
        status e = Pending \<and> (retry_count e = None \<or> (\<exists>n. retry_count e = Some n \<and> n < 3))"
    by (cases "retry_count e") (simp_all add: ls_eligible_def retry_or_0_def)
next
  show "prefix (LocalStorageService_getPendingTasks file_limit tasks) (filter ls_eligible tasks)"
    by (simp add: LocalStorageService_getPendingTasks_def slice_from_0_def take_is_prefix)
next
  assume "0 \<le> file_limit"
  then show "length (LocalStorageService_getPendingTasks file_limit tasks) =
        min (nat file_limit) (length (filter ls_eligible tasks))"
    by (simp add: LocalStorageService_getPendingTasks_def slice_from_0_def min.commute)
next
  assume "file_limit < 0"
  then show "length (LocalStorageService_getPendingTasks file_limit tasks) =
        length (filter ls_eligible tasks) - nat (- file_limit)"
    by (simp add: LocalStorageService_getPendingTasks_def slice_from_0_def)
next
  assume a: "0 \<le> file_limit \<and> sorted (map created_at tasks)"
  then have "sorted (map created_at (filter ls_eligible tasks))"
    by (intro sorted_filter) simp
  then have "lists_pending ls_eligible (nat file_limit) tasks (take (nat file_limit) (filter ls_eligible tasks))"
    by (rule take_of_sorted_lists_pending) simp
  with a show "lists_pending ls_eligible (nat file_limit) tasks
        (LocalStorageService_getPendingTasks file_limit tasks)"
    by (simp add: LocalStorageService_getPendingTasks_def slice_from_0_def)
qed

theorem getPendingTasks_lists_pending_witness:
  "SupabaseService_getPendingTasks 1
     [example_entry ''a'' ''1.1'' 30 Pending (Some 0), example_entry ''b'' ''1.2'' 10 Pending (Some 3),
      example_entry ''c'' ''1.3'' 20 Pending (Some 1), example_entry ''d'' ''1.4'' 5 Completed (Some 0)] =
     [example_entry ''c'' ''1.3'' 20 Pending (Some 1)] \<and>
   lists_pending sb_eligible 1
     [example_entry ''a'' ''1.1'' 30 Pending (Some 0), example_entry ''b'' ''1.2'' 10 Pending (Some 3),
      example_entry ''c'' ''1.3'' 20 Pending (Some 1), example_entry ''d'' ''1.4'' 5 Completed (Some 0)]
     [example_entry ''c'' ''1.3'' 20 Pending (Some 1)] \<and>
   LocalStorageService_getPendingTasks 1
     [example_entry ''d'' ''1.4'' 5 Completed None, example_entry ''b'' ''1.2'' 10 Pending None,
      example_entry ''e'' ''1.5'' 15 Pending (Some 5), example_entry ''c'' ''1.3'' 20 Pending (Some 2)] =
     [example_entry ''b'' ''1.2'' 10 Pending None] \<and>
   length (LocalStorageService_getPendingTasks 1
     [example_entry ''d'' ''1.4'' 5 Completed None, example_entry ''b'' ''1.2'' 10 Pending None,
      example_entry ''e'' ''1.5'' 15 Pending (Some 5), example_entry ''c'' ''1.3'' 20 Pending (Some 2)]) =
     min (nat 1) (length (filter ls_eligible
     [example_entry ''d'' ''1.4'' 5 Completed None, example_entry ''b'' ''1.2'' 10 Pending None,
      example_entry ''e'' ''1.5'' 15 Pending (Some 5), example_entry ''c'' ''1.3'' 20 Pending (Some 2)])) \<and>
   lists_pending ls_eligible (nat 1)
     [example_entry ''d'' ''1.4'' 5 Completed None, example_entry ''b'' ''1.2'' 10 Pending None,
      example_entry ''e'' ''1.5'' 15 Pending (Some 5), example_entry ''c'' ''1.3'' 20 Pending (Some 2)]
     [example_entry ''b'' ''1.2'' 10 Pending None] \<and>
   length (LocalStorageService_getPendingTasks (- 1)
     [example_entry ''d'' ''1.4'' 5 Completed None, example_entry ''b'' ''1.2'' 10 Pending None,
      example_entry ''e'' ''1.5'' 15 Pending (Some 5), example_entry ''c'' ''1.3'' 20 Pending (Some 2)]) =
     length (filter ls_eligible
     [example_entry ''d'' ''1.4'' 5 Completed None, example_entry ''b'' ''1.2'' 10 Pending None,
      example_entry ''e'' ''1.5'' 15 Pending (Some 5), example_entry ''c'' ''1.3'' 20 Pending (Some 2)])
       - nat (- (- 1))"
proof -
  let ?rows = "[example_entry ''a'' ''1.1'' 30 Pending (Some 0), example_entry ''b'' ''1.2'' 10 Pending (Some 3),
      example_entry ''c'' ''1.3'' 20 Pending (Some 1), example_entry ''d'' ''1.4'' 5 Completed (Some 0)]"
  let ?tasks = "[example_entry ''d'' ''1.4'' 5 Completed None, example_entry ''b'' ''1.2'' 10 Pending None,
      example_entry ''e'' ''1.5'' 15 Pending (Some 5), example_entry ''c'' ''1.3'' 20 Pending (Some 2)]"
  have sb: "SupabaseService_getPendingTasks 1 ?rows = [example_entry ''c'' ''1.3'' 20 Pending (Some 1)]"
    by (simp add: SupabaseService_getPendingTasks_def sb_eligible_def example_entry_def)
  have ls: "LocalStorageService_getPendingTasks 1 ?tasks = [example_entry ''b'' ''1.2'' 10 Pending None]"
    by (simp add: LocalStorageService_getPendingTasks_def slice_from_0_def ls_eligible_def retry_or_0_def
        example_entry_def)
  have ordered: "sorted (map created_at ?tasks)"
    by (simp add: example_entry_def)
  have nonneg: "(0::int) \<le> 1" and neg: "(- 1::int) < 0"
    by simp_all
  note pos = getPendingTasks_lists_pending [of 1 ?rows 1 ?tasks]
  note minus = getPendingTasks_lists_pending [of 1 ?rows "- 1" ?tasks]
  from pos sb have 1: "lists_pending sb_eligible 1 ?rows [example_entry ''c'' ''1.3'' 20 Pending (Some 1)]"
    by simp
  from pos nonneg have 2: "length (LocalStorageService_getPendingTasks 1 ?tasks) =
      min (nat 1) (length (filter ls_eligible ?tasks))"
    by blast
  from pos nonneg ordered have "lists_pending ls_eligible (nat 1) ?tasks
      (LocalStorageService_getPendingTasks 1 ?tasks)"
    by blast
  then have 3: "lists_pending ls_eligible (nat 1) ?tasks [example_entry ''b'' ''1.2'' 10 Pending None]"
    by (simp only: ls)
  from minus neg have 4: "length (LocalStorageService_getPendingTasks (- 1) ?tasks) =
      length (filter ls_eligible ?tasks) - nat (- (- 1))"
    by blast
  from sb 1 ls 2 3 4 show ?thesis
    by blast
qed

text \<open>
  The claim as written fails on the file backend: with a younger entry stored before an
  older one it returns the younger one first, and with a negative limit it returns more
  entries than the limit.
\<close>

theorem getPendingTasks_counterexample:
  "LocalStorageService_getPendingTasks 10
     [example_entry ''c'' ''1.3'' 20 Pending None, example_entry ''b'' ''1.2'' 10 Pending None] =
     [example_entry ''c'' ''1.3'' 20 Pending None, example_entry ''b'' ''1.2'' 10 Pending None] \<and>
   created_at (example_entry ''b'' ''1.2'' 10 Pending None)
     < created_at (example_entry ''c'' ''1.3'' 20 Pending None) \<and>
   \<not> sorted (map created_at (LocalStorageService_getPendingTasks 10
     [example_entry ''c'' ''1.3'' 20 Pending None, example_entry ''b'' ''1.2'' 10 Pending None])) \<and>
   LocalStorageService_getPendingTasks (- 1)
     [example_entry ''b'' ''1.2'' 10 Pending None, example_entry ''c'' ''1.3'' 20 Pending None] =
     [example_entry ''b'' ''1.2'' 10 Pending None]"
  by (simp add: LocalStorageService_getPendingTasks_def slice_from_0_def ls_eligible_def retry_or_0_def
      example_entry_def)

lemma created_at_merge_updates: "created_at (merge_updates updates now r) = created_at r"
proof -
  have "created_at (fold apply_update updates r) = created_at r"
  proof (induction updates arbitrary: r)
    case Nil
    show ?case by simp
  next
    case (Cons u us)
    have "created_at (apply_update u r) = created_at r"
      by (cases u) simp_all
    with Cons.IH [of "apply_update u r"] show ?case
      by simp
  qed
  then show ?thesis
    by (simp add: merge_updates_def)
qed

lemma findIndex_Some: "findIndex P xs = Some k \<Longrightarrow> k < length xs \<and> P (xs ! k) \<and> (\<forall>j < k. \<not> P (xs ! j))"
proof (induction xs arbitrary: k)
  case Nil
  then show ?case by simp
next
  case (Cons x xs)
  show ?case
  proof (cases "P x")
    case True
    with Cons.prems show ?thesis by simp
  next
    case False
    with Cons.prems obtain k' where k': "findIndex P xs = Some k'" "k = Suc k'"
      by auto
    from Cons.IH [OF k'(1)] False k'(2) show ?thesis
      by (auto simp: less_Suc_eq_0_disj)
  qed
qed

lemma findIndex_None: "findIndex P xs = None \<longleftrightarrow> (\<forall>x \<in> set xs. \<not> P x)"
  by (induction xs) auto

text \<open>
  The file backend keeps the file in creation order: the empty file is, and adding and
  updating an entry preserve it.
\<close>

lemma creation_ordered_empty:
  "creation_ordered \<lparr>task_queue = [], task_history = h, channel_mappings = m,
     MOTION_WORKSPACE_ID = v, clock = c, outbox = out\<rparr>"
  by (simp add: creation_ordered_def)

lemma creation_ordered_addToTaskQueue:
  assumes "creation_ordered w"
  shows "creation_ordered (snd (LocalStorageService_addToTaskQueue ts channel user tasks suggestions w))"
proof -
  obtain newTask w' where res: "LocalStorageService_addToTaskQueue ts channel user tasks suggestions w = (newTask, w')"
    by (cases "LocalStorageService_addToTaskQueue ts channel user tasks suggestions w")
  then have q: "task_queue w' = task_queue w @ [newTask]" and c: "clock w' = clock w + 2"
    and n: "created_at newTask = clock w + 1"
    by (auto simp: LocalStorageService_addToTaskQueue_def Let_def)
  from assms have old: "sorted (map created_at (task_queue w))"
    "\<forall>e \<in> set (task_queue w). created_at e \<le> clock w"
    by (simp_all add: creation_ordered_def)
  from old(2) n have "\<forall>e \<in> set (task_queue w). created_at e \<le> created_at newTask"
    by auto
  with old(1) have 1: "sorted (map created_at (task_queue w'))"
    by (simp add: q sorted_append)
  from old(2) n have 2: "\<forall>e \<in> set (task_queue w'). created_at e \<le> clock w'"
    by (auto simp: q c)
  from 1 2 res show ?thesis
    by (simp add: creation_ordered_def)
qed

lemma creation_ordered_updateTaskQueue:
  assumes "creation_ordered w"
  shows "creation_ordered (snd (LocalStorageService_updateTaskQueue i updates w))"
proof (cases "findIndex (\<lambda>t. queue_entry.id' t = i) (task_queue w)")
  case None
  with assms show ?thesis
    by (simp add: LocalStorageService_updateTaskQueue_def)
next
  case (Some k)
  let ?t = "merge_updates updates (clock w) (task_queue w ! k)"
  from findIndex_Some [OF Some] have k: "k < length (task_queue w)"
    by simp
  have same: "map created_at ((task_queue w)[k := ?t]) = map created_at (task_queue w)"
    using k by (simp add: map_update created_at_merge_updates list_update_same_conv)
  have "\<forall>e \<in> set ((task_queue w)[k := ?t]). created_at e \<le> clock w + 1"
  proof
    fix e assume "e \<in> set ((task_queue w)[k := ?t])"
    then have "created_at e \<in> set (map created_at ((task_queue w)[k := ?t]))"
      by simp
    then have "created_at e \<in> created_at ` set (task_queue w)"
      using same by simp
    with assms show "created_at e \<le> clock w + 1"
      by (auto simp: creation_ordered_def intro: le_SucI)
  qed
  with assms Some same show ?thesis
    by (simp add: LocalStorageService_updateTaskQueue_def Let_def creation_ordered_def)
qed
lemma find_first_match:
  "find P xs = Some x \<longleftrightarrow> (\<exists>i < length xs. x = xs ! i \<and> P (xs ! i) \<and> (\<forall>j < i. \<not> P (xs ! j)))"
  by (simp add: find_Some_iff conj_commute conj_left_commute)

text \<open>
  C4, as the code has it. \<^verbatim>\<open>getTaskByMessage\<close> returns none exactly when no entry has
  the key; otherwise it returns the first entry with the key in the order of the file, which
  is the earliest added: when the file is in creation order, no entry with the key is older.
\<close>

theorem getTaskByMessage_first_match:
  "(LocalStorageService_getTaskByMessage messageTs channelId tasks = None \<longleftrightarrow>
      (\<forall>t \<in> set tasks. \<not> (slack_message_ts t = messageTs \<and> slack_channel_id t = channelId))) \<and>
   (\<forall>e. LocalStorageService_getTaskByMessage messageTs channelId tasks = Some e \<longleftrightarrow>
      (\<exists>i < length tasks. e = tasks ! i \<and>
         slack_message_ts e = messageTs \<and> slack_channel_id e = channelId \<and>
         (\<forall>j < i. \<not> (slack_message_ts (tasks ! j) = messageTs \<and> slack_channel_id (tasks ! j) = channelId)))) \<and>
   (\<forall>e. sorted (map created_at tasks) \<and>
        LocalStorageService_getTaskByMessage messageTs channelId tasks = Some e \<longrightarrow>
      (\<forall>t \<in> set tasks. slack_message_ts t = messageTs \<and> slack_channel_id t = channelId \<longrightarrow>
         created_at e \<le> created_at t))"
proof (intro conjI allI impI)
  show "LocalStorageService_getTaskByMessage messageTs channelId tasks = None \<longleftrightarrow>
      (\<forall>t \<in> set tasks. \<not> (slack_message_ts t = messageTs \<and> slack_channel_id t = channelId))"
    by (auto simp: LocalStorageService_getTaskByMessage_def find_None_iff)
next
  fix e
  show "LocalStorageService_getTaskByMessage messageTs channelId tasks = Some e \<longleftrightarrow>
      (\<exists>i < length tasks. e = tasks ! i \<and>
         slack_message_ts e = messageTs \<and> slack_channel_id e = channelId \<and>
         (\<forall>j < i. \<not> (slack_message_ts (tasks ! j) = messageTs \<and> slack_channel_id (tasks ! j) = channelId)))"
    unfolding LocalStorageService_getTaskByMessage_def find_first_match by blast
next
  fix e
  assume a: "sorted (map created_at tasks) \<and>
        LocalStorageService_getTaskByMessage messageTs channelId tasks = Some e"
  let ?P = "\<lambda>t. slack_message_ts t = messageTs \<and> slack_channel_id t = channelId"
  from a obtain i where i: "i < length tasks" "e = tasks ! i" "\<forall>j < i. \<not> ?P (tasks ! j)"
    unfolding LocalStorageService_getTaskByMessage_def find_first_match by blast
  show "\<forall>t \<in> set tasks. ?P t \<longrightarrow> created_at e \<le> created_at t"
  proof (intro ballI impI)
    fix t assume "t \<in> set tasks" and P: "?P t"
    then obtain k where k: "k < length tasks" "t = tasks ! k"
      by (auto simp: in_set_conv_nth)
    have "i \<le> k"
    proof (rule ccontr)
      assume "\<not> i \<le> k"
      then have "k < i" by simp
      with i(3) have "\<not> ?P (tasks ! k)" by blast
      with P k(2) show False by simp
    qed
    with a k(1) have "map created_at tasks ! i \<le> map created_at tasks ! k"
      by (intro sorted_nth_mono) simp_all
    with i(1,2) k show "created_at e \<le> created_at t"
      by simp
  qed
qed

theorem getTaskByMessage_first_match_witness:
  "LocalStorageService_getTaskByMessage ''1.1'' ''C1''
     [example_entry ''a'' ''1.1'' 10 Completed None, example_entry ''b'' ''1.1'' 20 Pending None] =
     Some (example_entry ''a'' ''1.1'' 10 Completed None) \<and>
   created_at (example_entry ''a'' ''1.1'' 10 Completed None)
     \<le> created_at (example_entry ''b'' ''1.1'' 20 Pending None) \<and>
   LocalStorageService_getTaskByMessage ''9.9'' ''C1''
     [example_entry ''a'' ''1.1'' 10 Completed None, example_entry ''b'' ''1.1'' 20 Pending None] = None"
proof -
  let ?a = "example_entry ''a'' ''1.1'' 10 Completed None"
  let ?b = "example_entry ''b'' ''1.1'' 20 Pending None"
  let ?tasks = "[?a, ?b]"
  have found: "LocalStorageService_getTaskByMessage ''1.1'' ''C1'' ?tasks = Some ?a"
    by (simp add: LocalStorageService_getTaskByMessage_def example_entry_def)
  have ordered: "sorted (map created_at ?tasks)"
    by (simp add: example_entry_def)
  have key: "?b \<in> set ?tasks" "slack_message_ts ?b = ''1.1''" "slack_channel_id ?b = ''C1''"
    by (simp_all add: example_entry_def)
  from getTaskByMessage_first_match [of "''1.1''" "''C1''" ?tasks] ordered found
  have "\<forall>t \<in> set ?tasks. slack_message_ts t = ''1.1'' \<and> slack_channel_id t = ''C1'' \<longrightarrow>
      created_at ?a \<le> created_at t"
    by blast
  with key have older: "created_at ?a \<le> created_at ?b"
    by blast
  have "\<forall>t \<in> set ?tasks. \<not> (slack_message_ts t = ''9.9'' \<and> slack_channel_id t = ''C1'')"
    by (simp add: example_entry_def)
  with getTaskByMessage_first_match [of "''9.9''" "''C1''" ?tasks]
  have none: "LocalStorageService_getTaskByMessage ''9.9'' ''C1'' ?tasks = None"
    by blast
  from found older none show ?thesis
    by blast
qed

text \<open>
  The claim as written fails when two entries share a key: the one returned is the one
  created first, not the most recent one.
\<close>

theorem getTaskByMessage_counterexample:
  "LocalStorageService_getTaskByMessage ''1.1'' ''C1''
     [example_entry ''a'' ''1.1'' 10 Completed None, example_entry ''b'' ''1.1'' 20 Pending None] =
     Some (example_entry ''a'' ''1.1'' 10 Completed None) \<and>
   slack_message_ts (example_entry ''b'' ''1.1'' 20 Pending None) = ''1.1'' \<and>
   slack_channel_id (example_entry ''b'' ''1.1'' 20 Pending None) = ''C1'' \<and>
   created_at (example_entry ''a'' ''1.1'' 10 Completed None) <
     created_at (example_entry ''b'' ''1.1'' 20 Pending None)"
  by (simp add: LocalStorageService_getTaskByMessage_def example_entry_def)
section \<open>Properties of the handlers\<close>

subsection \<open>What a store write does to the table\<close>

lemma id_merge_updates: "queue_entry.id' (merge_updates updates now r) = queue_entry.id' r"
proof -
  have "queue_entry.id' (fold apply_update updates r) = queue_entry.id' r"
  proof (induction updates arbitrary: r)
    case Nil
    show ?case by simp
  next
    case (Cons u us)
    have "queue_entry.id' (apply_update u r) = queue_entry.id' r"
      by (cases u) simp_all
    with Cons.IH [of "apply_update u r"] show ?case
      by simp
  qed
  then show ?thesis
    by (simp add: merge_updates_def)
qed

lemma filter_id_map_update:
  "filter (\<lambda>r. queue_entry.id' r = i)
     (map (\<lambda>r. if queue_entry.id' r = i then merge_updates updates now r else r) rows) =
   map (merge_updates updates now) (filter (\<lambda>r. queue_entry.id' r = i) rows)"
  by (induction rows) (simp_all add: id_merge_updates)

lemma SupabaseService_updateTaskQueue_unique:
  assumes "filter (\<lambda>r. queue_entry.id' r = i) (task_queue w) = [q]"
  shows "SupabaseService_updateTaskQueue i updates w =
           (Inr (merge_updates updates (clock w) q),
            w\<lparr>task_queue := map (\<lambda>r. if queue_entry.id' r = i then merge_updates updates (clock w) r else r)
                               (task_queue w),
              clock := clock w + 1\<rparr>)"
  using assms by (simp add: SupabaseService_updateTaskQueue_def Let_def filter_id_map_update)

lemma SupabaseService_updateTaskQueue_rows:
  assumes "r \<in> set (task_queue (snd (SupabaseService_updateTaskQueue i updates w)))"
  shows "r \<in> set (task_queue w) \<or> (\<exists>r0 \<in> set (task_queue w). r = merge_updates updates (clock w) r0)"
proof -
  have "task_queue (snd (SupabaseService_updateTaskQueue i updates w)) =
      map (\<lambda>r. if queue_entry.id' r = i then merge_updates updates (clock w) r else r) (task_queue w)"
    by (simp add: SupabaseService_updateTaskQueue_def Let_def split: list.splits)
  with assms show ?thesis
    by auto
qed

lemma status_merge_completed: "status (merge_updates [SetStatus Completed] now r) = Completed"
  by (simp add: merge_updates_def)

lemma status_merge_pending:
  "status (merge_updates [SetStatus Pending, SetRetryCount n, SetErrorMessage m] now r) = Pending"
  by (simp add: merge_updates_def)

subsection \<open>The retry sweep never marks an entry failed\<close>

lemma retry_loop_no_new_failed:
  assumes "\<forall>t \<in> set ts. \<not> retry_ge_3 t"
    and "r \<in> set (task_queue (retry_loop api ts w))" and "status r = Failed"
  shows "r \<in> set (task_queue w)"
  using assms
proof (induction ts arbitrary: w)
  case Nil
  then show ?case by simp
next
  case (Cons t ts)
  let ?res = "createMultipleTasks (api t) (extracted_tasks t) \<lparr>workspaceId = None, projectId = None\<rparr>"
  let ?u1 = "if batch_result.success ?res then [SetStatus Completed]
             else [SetStatus Pending, SetRetryCount (retry_plus_1 t), SetErrorMessage ''Motion sync failed'']"
  let ?i = "queue_entry.id' t"
  obtain x1 w1 where s1: "SupabaseService_updateTaskQueue ?i ?u1 w = (x1, w1)"
    by (cases "SupabaseService_updateTaskQueue ?i ?u1 w")
  have keep1: "r' \<in> set (task_queue w)" if "r' \<in> set (task_queue w1)" "status r' = Failed" for r'
  proof -
    from that(1) s1 have "r' \<in> set (task_queue (snd (SupabaseService_updateTaskQueue ?i ?u1 w)))"
      by simp
    from SupabaseService_updateTaskQueue_rows [OF this] that(2) show ?thesis
      by (auto simp: status_merge_completed status_merge_pending split: if_splits)
  qed
  from Cons.prems(1) have t: "\<not> retry_ge_3 t" and ts: "\<forall>t \<in> set ts. \<not> retry_ge_3 t"
    by simp_all
  show ?case
  proof (cases x1)
    case (Inr row)
    with Cons.prems(2) t s1 have "r \<in> set (task_queue (retry_loop api ts w1))"
      by (simp add: Let_def)
    from Cons.IH [OF ts this Cons.prems(3)] Cons.prems(3) show ?thesis
      by (rule keep1)
  next
    case (Inl e)
    let ?u2 = "[SetStatus Pending, SetRetryCount (retry_plus_1 t), SetErrorMessage (message_of e)]"
    obtain x2 w2 where s2: "SupabaseService_updateTaskQueue ?i ?u2 w1 = (x2, w2)"
      by (cases "SupabaseService_updateTaskQueue ?i ?u2 w1")
    have keep2: "r' \<in> set (task_queue w1)" if "r' \<in> set (task_queue w2)" "status r' = Failed" for r'
    proof -
      from that(1) s2 have "r' \<in> set (task_queue (snd (SupabaseService_updateTaskQueue ?i ?u2 w1)))"
        by simp
      from SupabaseService_updateTaskQueue_rows [OF this] that(2) show ?thesis
        by (auto simp: status_merge_pending)
    qed
    have "r \<in> set (task_queue w2)"
    proof (cases x2)
      case (Inr row)
      with Cons.prems(2) t s1 s2 Inl have "r \<in> set (task_queue (retry_loop api ts w2))"
        by (simp add: Let_def)
      from Cons.IH [OF ts this Cons.prems(3)] show ?thesis .
    next
      case Inl2: (Inl e')
      with Cons.prems(2) t s1 s2 Inl show ?thesis
        by (simp add: Let_def)
    qed
    then have "r \<in> set (task_queue w1)"
      using Cons.prems(3) by (rule keep2)
    then show ?thesis
      using Cons.prems(3) by (rule keep1)
  qed
qed

lemma processRetryQueue_no_new_failed:
  assumes "r \<in> set (task_queue (processRetryQueue api w))" and "status r = Failed"
  shows "r \<in> set (task_queue w)"
proof -
  have "\<forall>t \<in> set (SupabaseService_getPendingTasks 5 (task_queue w)). \<not> retry_ge_3 t"
  proof
    fix t assume "t \<in> set (SupabaseService_getPendingTasks 5 (task_queue w))"
    then have "t \<in> set (sort_key created_at (filter sb_eligible (task_queue w)))"
      unfolding SupabaseService_getPendingTasks_def by (rule in_set_takeD)
    then have "sb_eligible t"
      by simp
    then show "\<not> retry_ge_3 t"
      by (auto simp: sb_eligible_def retry_ge_3_def split: option.splits)
  qed
  from retry_loop_no_new_failed [OF this] assms show ?thesis
    by (simp add: processRetryQueue_def)
qed
subsection \<open>What approving an entry writes\<close>

lemma createMultipleTasks_success_no_failed:
  "batch_result.success (createMultipleTasks api tasks options) \<Longrightarrow>
   failed (createMultipleTasks api tasks options) = 0"
  by (simp add: createMultipleTasks_def Let_def)

lemma send_fields:
  "task_queue (send ev w) = task_queue w"
  "MOTION_WORKSPACE_ID (send ev w) = MOTION_WORKSPACE_ID w"
  "channel_mappings (send ev w) = channel_mappings w"
  "clock (send ev w) = clock w"
  by (simp_all add: send_def)

lemma addTaskHistory_fields:
  "task_queue (addTaskHistory h w) = task_queue w"
  by (simp add: addTaskHistory_def)

lemma getChannelMapping_project_cong:
  "channel_mappings w' = channel_mappings w \<Longrightarrow>
   getChannelMapping_project channelId ws w' = getChannelMapping_project channelId ws w"
  by (simp add: getChannelMapping_project_def)

lemma SupabaseService_updateTaskQueue_unique_row:
  assumes "filter (\<lambda>r. queue_entry.id' r = i) (task_queue w) = [q]"
  obtains w' where
    "SupabaseService_updateTaskQueue i updates w = (Inr (merge_updates updates (clock w) q), w')"
    "filter (\<lambda>r. queue_entry.id' r = i) (task_queue w') = [merge_updates updates (clock w) q]"
    "MOTION_WORKSPACE_ID w' = MOTION_WORKSPACE_ID w"
    "channel_mappings w' = channel_mappings w"
proof -
  let ?w' = "w\<lparr>task_queue := map (\<lambda>r. if queue_entry.id' r = i then merge_updates updates (clock w) r else r)
                               (task_queue w),
              clock := clock w + 1\<rparr>"
  have "SupabaseService_updateTaskQueue i updates w = (Inr (merge_updates updates (clock w) q), ?w')"
    by (rule SupabaseService_updateTaskQueue_unique [OF assms])
  moreover have "filter (\<lambda>r. queue_entry.id' r = i) (task_queue ?w') = [merge_updates updates (clock w) q]"
    using assms by (simp add: filter_id_map_update)
  moreover have "MOTION_WORKSPACE_ID ?w' = MOTION_WORKSPACE_ID w" "channel_mappings ?w' = channel_mappings w"
    by simp_all
  ultimately show thesis
    by (rule that)
qed

text \<open>
  The function as it is written, for a caller that hands it the entry (\<^verbatim>\<open>handleBatch\<close>,
  its only caller, does not get that far, see below).
  For an entry stored once under its id, \<^verbatim>\<open>handleTaskApproval\<close> leaves the row
  \<open>Completed\<close> with its retry count untouched when every create call succeeded, and
  \<open>Failed\<close> with the retry count of the entry plus one when one did not.
\<close>

lemma handleTaskApproval_outcome:
  assumes "filter (\<lambda>r. queue_entry.id' r = queue_entry.id' q) (task_queue w) = [q]"
  shows "\<exists>row. filter (\<lambda>r. queue_entry.id' r = queue_entry.id' q)
                 (task_queue (snd (handleTaskApproval api q channelId messageTs w))) = [row] \<and>
           (if batch_result.success
                 (createMultipleTasks api (extracted_tasks q)
                    \<lparr>workspaceId = MOTION_WORKSPACE_ID w,
                     projectId = getChannelMapping_project channelId ''workspace'' w\<rparr>)
            then status row = Completed \<and> retry_count row = retry_count q
            else status row = Failed \<and> retry_count row = Some (retry_or_0 q + 1))"
proof -
  let ?i = "queue_entry.id' q"
  let ?P = "\<lambda>r. queue_entry.id' r = ?i"
  let ?q1 = "merge_updates [SetStatus Processing] (clock w) q"
  let ?opts = "\<lparr>workspaceId = MOTION_WORKSPACE_ID w,
                 projectId = getChannelMapping_project channelId ''workspace'' w\<rparr>"
  let ?res = "createMultipleTasks api (extracted_tasks q) ?opts"
  obtain w1 where u1: "SupabaseService_updateTaskQueue ?i [SetStatus Processing] w = (Inr ?q1, w1)"
    and f1: "filter ?P (task_queue w1) = [?q1]"
    and e1: "MOTION_WORKSPACE_ID w1 = MOTION_WORKSPACE_ID w" "channel_mappings w1 = channel_mappings w"
    by (rule SupabaseService_updateTaskQueue_unique_row [OF assms])
  let ?w2 = "send (PostMessage channelId (CreatingTasks (length (extracted_tasks q))) (Some messageTs)) w1"
  have f2: "filter ?P (task_queue ?w2) = [?q1]"
    using f1 by (simp only: send_fields)
  have opts: "\<lparr>workspaceId = MOTION_WORKSPACE_ID ?w2,
               projectId = getChannelMapping_project channelId ''workspace'' ?w2\<rparr> = ?opts"
    using e1 by (simp only: send_fields getChannelMapping_project_cong [OF e1(2)]
        getChannelMapping_project_cong [OF send_fields(3)])
  show ?thesis
  proof (cases "batch_result.success ?res")
    case True
    then have nf: "failed ?res = 0"
      by (rule createMultipleTasks_success_no_failed)
    let ?row = "merge_updates [SetStatus Completed] (clock ?w2) ?q1"
    obtain w3 where u2: "SupabaseService_updateTaskQueue ?i [SetStatus Completed] ?w2 = (Inr ?row, w3)"
      and f3: "filter ?P (task_queue w3) = [?row]"
      by (rule SupabaseService_updateTaskQueue_unique_row [OF f2])
    have "task_queue (snd (handleTaskApproval api q channelId messageTs w)) = task_queue w3"
      unfolding handleTaskApproval_def u1 prod.case sum.case Let_def opts u2
      using True nf by (simp add: send_fields addTaskHistory_fields)
    with f3 have "filter ?P (task_queue (snd (handleTaskApproval api q channelId messageTs w))) = [?row]"
      by (simp only:)
    moreover have "status ?row = Completed \<and> retry_count ?row = retry_count q"
      by (simp add: merge_updates_def)
    ultimately show ?thesis
      using True by (intro exI [of _ ?row]) (simp only: if_True simp_thms)
  next
    case False
    let ?us = "[SetStatus Failed, SetErrorMessage ''Motion API error'', SetRetryCount (retry_or_0 q + 1)]"
    let ?row = "merge_updates ?us (clock ?w2) ?q1"
    obtain w3 where u2: "SupabaseService_updateTaskQueue ?i ?us ?w2 = (Inr ?row, w3)"
      and f3: "filter ?P (task_queue w3) = [?row]"
      by (rule SupabaseService_updateTaskQueue_unique_row [OF f2])
    have "task_queue (snd (handleTaskApproval api q channelId messageTs w)) = task_queue w3"
      unfolding handleTaskApproval_def u1 prod.case sum.case Let_def opts u2
      using False by (simp add: send_fields)
    with f3 have "filter ?P (task_queue (snd (handleTaskApproval api q channelId messageTs w))) = [?row]"
      by (simp only:)
    moreover have "status ?row = Failed \<and> retry_count ?row = Some (retry_or_0 q + 1)"
      by (simp add: merge_updates_def)
    ultimately show ?thesis
      using False by (intro exI [of _ ?row]) (simp only: if_False simp_thms)
  qed
qed

subsection \<open>The approve button on an entry that is not pending\<close>

text \<open>
  C9. When the entry the approve button looks up is not pending, the handler changes
  nothing but the outbox, to which it adds one chat message: the queue, and with it every
  field of every entry, is as before, and no create request is made.
\<close>

theorem approve_tasks_leaves_non_pending_entry:
  assumes "LocalStorageService_getTaskByMessage messageTs channelId (task_queue w) = Some storedTask"
    and "status storedTask \<noteq> Pending"
  shows "approve_tasks api messageTs channelId w =
           w\<lparr>outbox := outbox w @
              [PostMessage channelId
                 (TasksAlready (if status storedTask = Completed then ''created'' else ''being processed''))
                 (Some messageTs)]\<rparr> \<and>
         task_queue (approve_tasks api messageTs channelId w) = task_queue w \<and>
         (\<forall>i t options. CreateCall i t options \<in> set (outbox (approve_tasks api messageTs channelId w)) \<longrightarrow>
            CreateCall i t options \<in> set (outbox w))"
proof -
  from assms have eq: "approve_tasks api messageTs channelId w =
           w\<lparr>outbox := outbox w @
              [PostMessage channelId
                 (TasksAlready (if status storedTask = Completed then ''created'' else ''being processed''))
                 (Some messageTs)]\<rparr>"
    by (simp add: approve_tasks_def send_def)
  then show ?thesis
    by simp
qed

theorem approve_tasks_leaves_non_pending_entry_witness:
  "approve_tasks (\<lambda>i t options. Created ''m1'') ''1.1'' ''C1''
     (example_world [example_entry ''a'' ''1.1'' 10 Completed None]) =
   (example_world [example_entry ''a'' ''1.1'' 10 Completed None])
     \<lparr>outbox := [PostMessage ''C1'' (TasksAlready ''created'') (Some ''1.1'')]\<rparr>"
proof -
  let ?w = "example_world [example_entry ''a'' ''1.1'' 10 Completed None]"
  have found: "LocalStorageService_getTaskByMessage ''1.1'' ''C1'' (task_queue ?w) =
      Some (example_entry ''a'' ''1.1'' 10 Completed None)"
    by (simp add: LocalStorageService_getTaskByMessage_def example_world_def example_entry_def)
  have st: "status (example_entry ''a'' ''1.1'' 10 Completed None) \<noteq> Pending"
    by (simp add: example_entry_def)
  have st': "status (example_entry ''a'' ''1.1'' 10 Completed None) = Completed"
    by (simp add: example_entry_def)
  have out: "outbox ?w = []"
    by (simp add: example_world_def)
  from approve_tasks_leaves_non_pending_entry [OF found st, of "\<lambda>i t options. Created ''m1''"]
  show ?thesis
    by (simp add: st' out)
qed

subsection \<open>What the approve button writes\<close>








subsection \<open>The reaction and button path of the relational backend\<close>

text \<open>
  \<^verbatim>\<open>handleBatch\<close> never gets as far as \<^verbatim>\<open>handleTaskApproval\<close> or
  \<^verbatim>\<open>handleTaskRejection\<close>: whatever the action and the queue, it posts the error message
  and leaves the state as it is, so no create call is made and no entry is written.
\<close>

lemma handleBatch_always_errors:
  "handleBatch api action messageTs channelId w =
     send (PostMessage channelId ErrorProcessingTasks (Some messageTs)) w"
  by (simp add: handleBatch_def pending_row_query_def supabaseService_supabase_def and_then_def)

lemma handleBatch_leaves_queue: "task_queue (handleBatch api action messageTs channelId w) = task_queue w"
  by (simp add: handleBatch_always_errors send_fields)

subsection \<open>The retry sweep on a failing destination call\<close>

text \<open>
  C1 on the code. An entry whose sync fails in three sweeps in a row has retry count 3 and
  is still \<open>Pending\<close>, not \<open>Failed\<close>; the read of the next sweep leaves it out,
  so that sweep, whatever the destination service answers, changes nothing and the entry
  stays as it is.
\<close>

theorem processRetryQueue_three_failures_stay_pending:
  "processRetryQueue (\<lambda>e i t options. Refused ''Rate limit exceeded'')
     (processRetryQueue (\<lambda>e i t options. Refused ''Rate limit exceeded'')
       (processRetryQueue (\<lambda>e i t options. Refused ''Rate limit exceeded'')
         (example_world [example_entry ''a'' ''1.1'' 10 Pending (Some 0)]))) =
   (example_world [(example_entry ''a'' ''1.1'' 10 Pending (Some 0))
        \<lparr>retry_count := Some 3, status := Pending, error_message := Some ''Motion sync failed'',
         last_attempt := Some 2\<rparr>])\<lparr>clock := 3\<rparr> \<and>
   SupabaseService_getPendingTasks 5
     [(example_entry ''a'' ''1.1'' 10 Pending (Some 0))
        \<lparr>retry_count := Some 3, status := Pending, error_message := Some ''Motion sync failed'',
         last_attempt := Some 2\<rparr>] = [] \<and>
   processRetryQueue api
     ((example_world [(example_entry ''a'' ''1.1'' 10 Pending (Some 0))
        \<lparr>retry_count := Some 3, status := Pending, error_message := Some ''Motion sync failed'',
         last_attempt := Some 2\<rparr>])\<lparr>clock := 3\<rparr>) =
   (example_world [(example_entry ''a'' ''1.1'' 10 Pending (Some 0))
        \<lparr>retry_count := Some 3, status := Pending, error_message := Some ''Motion sync failed'',
         last_attempt := Some 2\<rparr>])\<lparr>clock := 3\<rparr>"
  by (simp add: processRetryQueue_def SupabaseService_updateTaskQueue_def
      example_world_def example_entry_def merge_updates_def Let_def
      createMultipleTasks_def batches_eq attempt_def createTask_def retry_ge_3_def retry_plus_1_def
      SupabaseService_getPendingTasks_def sb_eligible_def)

end
